theory Spec2Isabelle
  imports Complex_Main "HOL-Library.Monad_Syntax" "HOL-Library.Multiset"
begin

text \<open>
  The script \<^verbatim>\<open>scripts/generate_apk_metrics_dashboard.py\<close> reads the comparison reports
  of an APK diffing tool and builds a timeline of release snapshots from them. This theory
  embeds its two value parsers (\<^verbatim>\<open>parse_size_value\<close>, \<^verbatim>\<open>parse_number_value\<close>), its report
  parser (\<^verbatim>\<open>parse_diffuse_slim_report\<close>), the loop of \<^verbatim>\<open>main\<close> over the report files and
  its timeline builder (\<^verbatim>\<open>build_cumulative_data\<close>), and states what holds of them.
\<close>

section \<open>Text: code points, whitespace, digits\<close>

text \<open>
  A Python \<^verbatim>\<open>str\<close> is a sequence of Unicode code points, so text is a list of
  natural numbers. The report format uses three glyphs beyond ASCII: the column
  separator U+2502, the border rule U+2500 and the arrow U+2192.

  Whitespace is what \<^verbatim>\<open>str.strip()\<close> and the pattern \<^verbatim>\<open>\s\<close> take for whitespace:
  the 29 code points listed in \<open>is_space\<close>.

  A digit is what the pattern \<^verbatim>\<open>\d\<close>, \<^verbatim>\<open>int\<close> and \<^verbatim>\<open>float\<close> take for a decimal
  digit: a code point of the Unicode category Nd. The table is not part of the script; it
  is the one of Unicode 14.0, which Python 3.11 carries: 660 digits in 66 runs of ten,
  each run the digits 0 to 9 of one script in this order. \<open>digit_zeros\<close> lists the zero
  of every run, and \<open>digit_of\<close> is the value of a digit.
\<close>

type_synonym pystr = "nat list"

definition str :: "string \<Rightarrow> pystr" where
  "str s = map of_char s"

definition newline :: nat where "newline = 10"
definition plus_sign :: nat where "plus_sign = 43"
definition comma :: nat where "comma = 44"
definition minus_sign :: nat where "minus_sign = 45"
definition dot :: nat where "dot = 46"
definition quote :: nat where "quote = 39"
definition arrow :: nat where "arrow = 8594"
definition hrule :: nat where "hrule = 9472"
definition vbar :: nat where "vbar = 9474"

definition is_space :: "nat \<Rightarrow> bool" where
  "is_space c \<longleftrightarrow>
     (9 \<le> c \<and> c \<le> 13) \<or> (28 \<le> c \<and> c \<le> 32) \<or> c = 133 \<or> c = 160 \<or> c = 5760 \<or>
     (8192 \<le> c \<and> c \<le> 8202) \<or> c = 8232 \<or> c = 8233 \<or> c = 8239 \<or> c = 8287 \<or> c = 12288"

definition digit_zeros :: "nat list" where
  "digit_zeros =
     [48, 1632, 1776, 1984, 2406, 2534, 2662, 2790, 2918, 3046, 3174, 3302, 3430, 3558, 3664,
      3792, 3872, 4160, 4240, 6112, 6160, 6470, 6608, 6784, 6800, 6992, 7088, 7232, 7248,
      42528, 43216, 43264, 43472, 43504, 43600, 44016, 65296, 66720, 68912, 69734, 69872,
      69942, 70096, 70384, 70736, 70864, 71248, 71360, 71472, 71904, 72016, 72784, 73040,
      73120, 92768, 92864, 93008, 120782, 120792, 120802, 120812, 120822, 123200, 123632,
      125264, 130032]"

definition is_digit :: "nat \<Rightarrow> bool" where
  "is_digit c \<longleftrightarrow> list_ex (\<lambda>z. z \<le> c \<and> c < z + 10) digit_zeros"

definition digit_of :: "nat \<Rightarrow> nat" where
  "digit_of c =
     (case find (\<lambda>z. z \<le> c \<and> c < z + 10) digit_zeros of Some z \<Rightarrow> c - z | None \<Rightarrow> 0)"

text \<open>\<^verbatim>\<open>s.strip()\<close>: whitespace removed at both ends.\<close>

definition strip :: "pystr \<Rightarrow> pystr" where
  "strip s = rev (dropWhile is_space (rev (dropWhile is_space s)))"

text \<open>\<^verbatim>\<open>s.split(sep)\<close> for a separator of one code point: never an empty list.\<close>

fun split :: "nat \<Rightarrow> pystr \<Rightarrow> pystr list" where
  "split sep [] = [[]]"
| "split sep (c # cs) =
     (if c = sep then [] # split sep cs
      else (case split sep cs of p # ps \<Rightarrow> (c # p) # ps | [] \<Rightarrow> [[c]]))"

text \<open>The value of a run of digits, most significant first.\<close>

definition digits_value :: "pystr \<Rightarrow> nat" where
  "digits_value ds = foldl (\<lambda>a c. 10 * a + digit_of c) 0 ds"

text \<open>\<^verbatim>\<open>str(n)\<close> for a natural number: its decimal digits.\<close>

function decimal_text :: "nat \<Rightarrow> pystr" where
  "decimal_text n = (if n < 10 then [48 + n] else decimal_text (n div 10) @ [48 + n mod 10])"
  by pat_completeness auto
termination
  by (relation "measure id") auto

section \<open>Errors\<close>

text \<open>
  The parsers can raise \<^verbatim>\<open>ValueError\<close> in two places. \<^verbatim>\<open>float\<close> raises it on a text
  that is no number: \<open>ValueError s\<close> carries the text \<open>s\<close> that \<^verbatim>\<open>float\<close> was given.
  \<^verbatim>\<open>int\<close> raises it on a text of more digits than the interpreter converts (4300 unless
  the interpreter is configured otherwise): \<open>ValueErrorDigits n\<close> carries the number
  \<open>n\<close> of digits. The timeline builder can raise the \<^verbatim>\<open>TypeError\<close> of a comparison
  with \<^verbatim>\<open>None\<close> inside \<^verbatim>\<open>sorted\<close>, and its \<^verbatim>\<open>sorted_reports[0]\<close> would raise
  \<^verbatim>\<open>IndexError\<close> on an empty list.
\<close>

datatype value_error = ValueError pystr | ValueErrorDigits nat

definition int_max_str_digits :: nat where
  "int_max_str_digits = 4300"

datatype build_error = TypeError | IndexError

section \<open>Regular expressions\<close>

text \<open>
  \<^verbatim>\<open>re.search\<close> tries the pattern at each start position from the left and returns
  the first match; at one start position the backtracking matcher returns the first
  match in the order of its choices (a greedy repetition longest first, a lazy one
  shortest first, an alternation left to right). Each pattern of the source is written
  as a function that matches it at the start of a text; \<open>re_search\<close> is the scan over
  start positions, the empty rest included.

  The pieces: \<open>re_lit\<close> a literal; \<open>re_spaces1\<close> the greedy \<^verbatim>\<open>\s+\<close> and \<open>re_run1\<close> a
  greedy \<^verbatim>\<open>[...]+\<close>, each used only where what follows cannot begin with a member
  of the class, so that giving back part of the run never leads to a match and the longest
  run is the only candidate; \<open>re_skip_to\<close> the lazy \<^verbatim>\<open>(.*?)lit\<close> under
  \<^verbatim>\<open>re.DOTALL\<close>, which stops at the earliest occurrence of the literal.
\<close>

fun re_lit :: "pystr \<Rightarrow> pystr \<Rightarrow> pystr option" where
  "re_lit [] s = Some s"
| "re_lit (p # ps) [] = None"
| "re_lit (p # ps) (c # cs) = (if p = c then re_lit ps cs else None)"

definition re_spaces1 :: "pystr \<Rightarrow> pystr option" where
  "re_spaces1 s = (if takeWhile is_space s = [] then None else Some (dropWhile is_space s))"

definition re_run1 :: "(nat \<Rightarrow> bool) \<Rightarrow> pystr \<Rightarrow> (pystr \<times> pystr) option" where
  "re_run1 P s = (if takeWhile P s = [] then None else Some (takeWhile P s, dropWhile P s))"

fun re_skip_to :: "pystr \<Rightarrow> pystr \<Rightarrow> (pystr \<times> pystr) option" where
  "re_skip_to lit [] = map_option (Pair []) (re_lit lit [])"
| "re_skip_to lit (c # cs) =
     (case re_lit lit (c # cs) of
        Some r \<Rightarrow> Some ([], r)
      | None \<Rightarrow> map_option (\<lambda>(g, r). (c # g, r)) (re_skip_to lit cs))"

fun re_search :: "(pystr \<Rightarrow> 'a option) \<Rightarrow> pystr \<Rightarrow> 'a option" where
  "re_search m [] = m []"
| "re_search m (c # cs) =
     (case m (c # cs) of Some r \<Rightarrow> Some r | None \<Rightarrow> re_search m cs)"

section \<open>Unit value parser\<close>

subsection \<open>\<^verbatim>\<open>parse_size_value\<close>\<close>

text \<open>
  \<^verbatim>\<open>float(s)\<close> on the texts the size pattern hands to it, which consist of digits
  and dots: a decimal has at most one dot and at least one digit, anything else raises
  \<^verbatim>\<open>ValueError\<close>. A Python float is modelled by the real number the decimal denotes;
  the rounding to a double is left out. \<open>decimal_value ip fp\<close> is the number written
  with the digits \<open>ip\<close> before the dot and the digits \<open>fp\<close> after it.
\<close>

definition decimal_value :: "pystr \<Rightarrow> pystr \<Rightarrow> real" where
  "decimal_value ip fp = real (digits_value ip) + real (digits_value fp) / 10 ^ length fp"

definition py_float :: "pystr \<Rightarrow> value_error + real" where
  "py_float s =
     (let ip = takeWhile is_digit s; r = dropWhile is_digit s in
      case r of
        [] \<Rightarrow> if ip = [] then Inl (ValueError s) else Inr (decimal_value ip [])
      | c # fp \<Rightarrow>
          if c = dot \<and> list_all is_digit fp \<and> (ip \<noteq> [] \<or> fp \<noteq> [])
          then Inr (decimal_value ip fp)
          else Inl (ValueError s))"

definition is_numch :: "nat \<Rightarrow> bool" where
  "is_numch c \<longleftrightarrow> is_digit c \<or> c = dot"

text \<open>The alternation \<^verbatim>\<open>(MiB|KiB|B)\<close>, tried left to right; the result is the text matched.\<close>

definition re_unit :: "pystr \<Rightarrow> pystr option" where
  "re_unit s =
     (if re_lit (str ''MiB'') s \<noteq> None then Some (str ''MiB'')
      else if re_lit (str ''KiB'') s \<noteq> None then Some (str ''KiB'')
      else if re_lit (str ''B'') s \<noteq> None then Some (str ''B'')
      else None)"

text \<open>
  The pattern \<^verbatim>\<open>([\d.]+)\s*(MiB|KiB|B)\<close> at the start of a text. A unit begins with
  a letter, so neither a shorter run of digits and dots nor a shorter run of whitespace
  can be followed by one: the longest runs are the only candidates.
\<close>

definition size_at :: "pystr \<Rightarrow> (pystr \<times> pystr) option" where
  "size_at s =
     do { (g1, r) \<leftarrow> re_run1 is_numch s;
          g2 \<leftarrow> re_unit (dropWhile is_space r);
          Some (g1, g2) }"

definition parse_size_value :: "pystr \<Rightarrow> value_error + real option" where
  "parse_size_value size_str =
     (if size_str = [] then Inr None
      else case re_search size_at (strip size_str) of
        None \<Rightarrow> Inr None
      | Some (g1, unit) \<Rightarrow>
          (case py_float g1 of
             Inl e \<Rightarrow> Inl e
           | Inr v \<Rightarrow>
               if unit = str ''MiB'' then Inr (Some v)
               else if unit = str ''KiB'' then Inr (Some (v / 1024))
               else if unit = str ''B'' then Inr (Some (v / (1024 * 1024)))
               else Inr None))"

subsection \<open>\<^verbatim>\<open>parse_number_value\<close>\<close>

text \<open>
  The pattern \<^verbatim>\<open>([+-]?\d+(?:,\d+)*)\<close> at the start of a text. The optional sign is
  tried first and given up if no digit follows it; the digit runs are greedy, and since
  the tail \<^verbatim>\<open>(?:,\d+)*\<close> also matches nothing, the first choice always succeeds.
\<close>

function re_comma_groups :: "pystr \<Rightarrow> pystr" where
  "re_comma_groups [] = []"
| "re_comma_groups (c # cs) =
     (if c = comma \<and> takeWhile is_digit cs \<noteq> []
      then c # takeWhile is_digit cs @ re_comma_groups (dropWhile is_digit cs)
      else [])"
  by pat_completeness auto
termination
  by (relation "measure length") (auto simp: length_dropWhile_le less_Suc_eq_le)

definition unsigned_at :: "pystr \<Rightarrow> pystr option" where
  "unsigned_at s =
     (if takeWhile is_digit s = [] then None
      else Some (takeWhile is_digit s @ re_comma_groups (dropWhile is_digit s)))"

definition number_at :: "pystr \<Rightarrow> pystr option" where
  "number_at s =
     (case s of
        [] \<Rightarrow> None
      | c # cs \<Rightarrow>
          if c = plus_sign \<or> c = minus_sign
          then (case unsigned_at cs of Some m \<Rightarrow> Some (c # m) | None \<Rightarrow> unsigned_at s)
          else unsigned_at s)"

text \<open>
  \<^verbatim>\<open>int(s)\<close> on the texts the patterns hand to it: an optional sign and a run of
  digits. The digits after the sign are counted, leading zeros included, and more than
  \<open>int_max_str_digits\<close> of them raise \<^verbatim>\<open>ValueError\<close>; otherwise the result is the
  number they denote, of any size.
\<close>

definition py_int :: "pystr \<Rightarrow> value_error + int" where
  "py_int s =
     (let negative = (case s of [] \<Rightarrow> False | c # cs \<Rightarrow> c = minus_sign);
          ds = (case s of [] \<Rightarrow> [] | c # cs \<Rightarrow> if c = minus_sign \<or> c = plus_sign then cs else s)
      in if int_max_str_digits < length ds then Inl (ValueErrorDigits (length ds))
         else if negative then Inr (- int (digits_value ds))
         else Inr (int (digits_value ds)))"

definition parse_number_value :: "pystr \<Rightarrow> value_error + int option" where
  "parse_number_value num_str =
     (if num_str = [] then Inr None
      else case re_search number_at (strip num_str) of
        None \<Rightarrow> Inr None
      | Some g \<Rightarrow>
          (case py_int (filter (\<lambda>c. c \<noteq> comma) g) of
             Inl e \<Rightarrow> Inl e
           | Inr n \<Rightarrow> Inr (Some n)))"

section \<open>Data model\<close>

text \<open>
  The dictionaries of the source as records of their keys; a table that maps component
  or metric names to values is a map. The two size tables of \<^verbatim>\<open>apk_sizes\<close> are the
  fields \<open>apk_compressed\<close> and \<open>apk_uncompressed\<close>.
\<close>

record apk_size_tables =
  apk_compressed :: "pystr \<rightharpoonup> real"
  apk_uncompressed :: "pystr \<rightharpoonup> real"

record parsed_report =
  old_version :: pystr
  new_version :: pystr
  old_version_code :: "int option"
  new_version_code :: "int option"
  apk_sizes :: apk_size_tables
  dex_metrics :: "pystr \<rightharpoonup> int"
  arsc_metrics :: "pystr \<rightharpoonup> int"

record snapshot =
  version :: pystr
  versionCode :: "int option"
  compressed :: "pystr \<rightharpoonup> real"
  uncompressed :: "pystr \<rightharpoonup> real"
  dex :: "pystr \<rightharpoonup> int"
  arsc :: "pystr \<rightharpoonup> int"

text \<open>What \<^verbatim>\<open>log_info\<close>, \<^verbatim>\<open>log_success\<close> and \<^verbatim>\<open>log_error\<close> print, without the colours.\<close>

datatype log_entry = LogInfo pystr | LogSuccess pystr | LogError pystr

section \<open>Report parser\<close>

subsection \<open>The patterns\<close>

text \<open>
  The patterns are quoted with \<^verbatim>\<open>>\<close> for the arrow U+2192, \<^verbatim>\<open>#\<close> for the column
  separator U+2502 and \<^verbatim>\<open>=\<close> for the border glyph U+2500.

  The header pattern \<^verbatim>\<open>Diffuse Comparison:\s+([\d.]+)\s+>\s+([\d.]+)\<close>.
\<close>

definition header_at :: "pystr \<Rightarrow> (pystr \<times> pystr) option" where
  "header_at s =
     do { r1 \<leftarrow> re_lit (str ''Diffuse Comparison:'') s;
          r2 \<leftarrow> re_spaces1 r1;
          (g1, r3) \<leftarrow> re_run1 is_numch r2;
          r4 \<leftarrow> re_spaces1 r3;
          r5 \<leftarrow> re_lit [arrow] r4;
          r6 \<leftarrow> re_spaces1 r5;
          (g2, r7) \<leftarrow> re_run1 is_numch r6;
          Some (g1, g2) }"

text \<open>The version code pattern \<^verbatim>\<open>version code\s+#\s+(\d+)\s+#\s+(\d+)\<close>.\<close>

definition version_code_at :: "pystr \<Rightarrow> (pystr \<times> pystr) option" where
  "version_code_at s =
     do { r1 \<leftarrow> re_lit (str ''version code'') s;
          r2 \<leftarrow> re_spaces1 r1;
          r3 \<leftarrow> re_lit [vbar] r2;
          r4 \<leftarrow> re_spaces1 r3;
          (g1, r5) \<leftarrow> re_run1 is_digit r4;
          r6 \<leftarrow> re_spaces1 r5;
          r7 \<leftarrow> re_lit [vbar] r6;
          r8 \<leftarrow> re_spaces1 r7;
          (g2, r9) \<leftarrow> re_run1 is_digit r8;
          Some (g1, g2) }"

text \<open>
  The three table patterns are compiled with \<^verbatim>\<open>re.DOTALL\<close>: the lazy gap \<^verbatim>\<open>.*?\<close>
  runs over line ends. In each of them a gap is followed by a literal and then by another
  lazy gap (or by the end of the pattern), so whenever the rest of the pattern matches
  after a later occurrence of the literal it matches after the earliest one too: the
  first match the backtracking finds takes the earliest occurrence at every gap.

  The APK pattern
  \<^verbatim>\<open>APK\s+#.*?compressed.*?#.*?uncompressed.*?\n.*?===.*?\n(.*?)\n.*?===\<close>.
  Its group is the lazy gap between two line ends.
\<close>

definition apk_table_at :: "pystr \<Rightarrow> pystr option" where
  "apk_table_at s =
     do { r1 \<leftarrow> re_lit (str ''APK'') s;
          r2 \<leftarrow> re_spaces1 r1;
          r3 \<leftarrow> re_lit [vbar] r2;
          (g4, r4) \<leftarrow> re_skip_to (str ''compressed'') r3;
          (g5, r5) \<leftarrow> re_skip_to [vbar] r4;
          (g6, r6) \<leftarrow> re_skip_to (str ''uncompressed'') r5;
          (g7, r7) \<leftarrow> re_skip_to [newline] r6;
          (g8, r8) \<leftarrow> re_skip_to [hrule, hrule, hrule] r7;
          (g9, r9) \<leftarrow> re_skip_to [newline] r8;
          (table_content, r10) \<leftarrow> re_skip_to [newline] r9;
          (g11, r11) \<leftarrow> re_skip_to [hrule, hrule, hrule] r10;
          Some table_content }"

text \<open>
  A lazy group \<^verbatim>\<open>(.*?)\<close> followed by an end condition: the shortest prefix after
  which the condition holds.
\<close>

fun re_lazy_until :: "(pystr \<Rightarrow> bool) \<Rightarrow> pystr \<Rightarrow> pystr option" where
  "re_lazy_until E [] = (if E [] then Some [] else None)"
| "re_lazy_until E (c # cs) =
     (if E (c # cs) then Some [] else map_option (Cons c) (re_lazy_until E cs))"

text \<open>
  \<^verbatim>\<open>\n\s*\n\<close> at the start of a text: a line end, then whitespace, then a line end.
  A line end is whitespace itself, so the greedy \<^verbatim>\<open>\s*\<close> can give back down to
  any line end inside the whitespace that follows the first one.
\<close>

definition blank_line_at :: "pystr \<Rightarrow> bool" where
  "blank_line_at s =
     (case s of [] \<Rightarrow> False | c # cs \<Rightarrow> c = newline \<and> newline \<in> set (takeWhile is_space cs))"

text \<open>
  The DEX pattern \<^verbatim>\<open>DEX\s+#.*?\n.*?===.*?\n(.*?)(?:\n\s*\n|\n.*?ARSC)\<close>: the group ends
  at the first line end that is followed by a blank line or, anywhere later, by
  \<^verbatim>\<open>ARSC\<close>.
\<close>

definition dex_end_at :: "pystr \<Rightarrow> bool" where
  "dex_end_at s =
     (blank_line_at s \<or>
      (case s of [] \<Rightarrow> False | c # cs \<Rightarrow> c = newline \<and> re_skip_to (str ''ARSC'') cs \<noteq> None))"

definition dex_table_at :: "pystr \<Rightarrow> pystr option" where
  "dex_table_at s =
     do { r1 \<leftarrow> re_lit (str ''DEX'') s;
          r2 \<leftarrow> re_spaces1 r1;
          r3 \<leftarrow> re_lit [vbar] r2;
          (g4, r4) \<leftarrow> re_skip_to [newline] r3;
          (g5, r5) \<leftarrow> re_skip_to [hrule, hrule, hrule] r4;
          (g6, r6) \<leftarrow> re_skip_to [newline] r5;
          re_lazy_until dex_end_at r6 }"

text \<open>
  The ARSC pattern \<^verbatim>\<open>ARSC\s+#.*?\n.*?===.*?\n(.*?)(?:\n\s*\n|$)\<close>: without
  \<^verbatim>\<open>re.MULTILINE\<close> the \<^verbatim>\<open>$\<close> holds at the end of the text and before a line end
  that is its last code point.
\<close>

definition arsc_end_at :: "pystr \<Rightarrow> bool" where
  "arsc_end_at s = (blank_line_at s \<or> s = [] \<or> s = [newline])"

definition arsc_table_at :: "pystr \<Rightarrow> pystr option" where
  "arsc_table_at s =
     do { r1 \<leftarrow> re_lit (str ''ARSC'') s;
          r2 \<leftarrow> re_spaces1 r1;
          r3 \<leftarrow> re_lit [vbar] r2;
          (g4, r4) \<leftarrow> re_skip_to [newline] r3;
          (g5, r5) \<leftarrow> re_skip_to [hrule, hrule, hrule] r4;
          (g6, r6) \<leftarrow> re_skip_to [newline] r5;
          re_lazy_until arsc_end_at r6 }"

subsection \<open>The rows of a table\<close>

text \<open>\<^verbatim>\<open>if x:\<close> on an optional float: \<^verbatim>\<open>None\<close> and \<^verbatim>\<open>0.0\<close> are false.\<close>

definition truthy :: "real option \<Rightarrow> bool" where
  "truthy x = (case x of None \<Rightarrow> False | Some v \<Rightarrow> v \<noteq> 0)"

text \<open>
  The statements that the loop over the APK rows runs for the row \<^verbatim>\<open>total\<close> and,
  written out a second time, for every other component: both new-side cells are parsed,
  column 2 before column 5, and each value that is true is stored under the key.
\<close>

definition store_new_sizes ::
  "apk_size_tables \<Rightarrow> pystr \<Rightarrow> pystr list \<Rightarrow> value_error + apk_size_tables" where
  "store_new_sizes sizes key parts =
     (case parse_size_value (parts ! 2) of
        Inl e \<Rightarrow> Inl e
      | Inr new_compressed \<Rightarrow>
          (case parse_size_value (parts ! 5) of
             Inl e \<Rightarrow> Inl e
           | Inr new_uncompressed \<Rightarrow>
               let s1 = (if truthy new_compressed
                         then sizes\<lparr>apk_compressed := (apk_compressed sizes)(key := new_compressed)\<rparr>
                         else sizes);
                   s2 = (if truthy new_uncompressed
                         then s1\<lparr>apk_uncompressed := (apk_uncompressed s1)(key := new_uncompressed)\<rparr>
                         else s1)
               in Inr s2))"

definition apk_row :: "apk_size_tables \<Rightarrow> pystr \<Rightarrow> value_error + apk_size_tables" where
  "apk_row sizes line =
     (if vbar \<notin> set line then Inr sizes
      else let parts = map strip (split vbar line) in
        if length parts < 7 then Inr sizes
        else let component = strip (parts ! 0) in
          if component = [] \<or> component = str ''total''
          then (if component = str ''total''
                then store_new_sizes sizes (str ''total'') parts
                else Inr sizes)
          else store_new_sizes sizes component parts)"

fun apk_rows :: "apk_size_tables \<Rightarrow> pystr list \<Rightarrow> value_error + apk_size_tables" where
  "apk_rows sizes [] = Inr sizes"
| "apk_rows sizes (line # lines) =
     (case apk_row sizes line of Inl e \<Rightarrow> Inl e | Inr sizes' \<Rightarrow> apk_rows sizes' lines)"

text \<open>
  The loop over the DEX rows and the loop over the ARSC rows are the same statements with
  another list of accepted metric names.
\<close>

definition metric_row ::
  "pystr list \<Rightarrow> (pystr \<rightharpoonup> int) \<Rightarrow> pystr \<Rightarrow> value_error + (pystr \<rightharpoonup> int)" where
  "metric_row names metrics line =
     (if vbar \<notin> set line then Inr metrics
      else let parts = map strip (split vbar line) in
        if length parts < 3 then Inr metrics
        else let metric = strip (parts ! 0) in
          if metric \<in> set names
          then (case parse_number_value (parts ! 2) of
                  Inl e \<Rightarrow> Inl e
                | Inr (Some new_value) \<Rightarrow> Inr (metrics(metric \<mapsto> new_value))
                | Inr None \<Rightarrow> Inr metrics)
          else Inr metrics)"

fun metric_rows ::
  "pystr list \<Rightarrow> (pystr \<rightharpoonup> int) \<Rightarrow> pystr list \<Rightarrow> value_error + (pystr \<rightharpoonup> int)" where
  "metric_rows names metrics [] = Inr metrics"
| "metric_rows names metrics (line # lines) =
     (case metric_row names metrics line of
        Inl e \<Rightarrow> Inl e
      | Inr metrics' \<Rightarrow> metric_rows names metrics' lines)"

definition dex_names :: "pystr list" where
  "dex_names = map str [''files'', ''strings'', ''types'', ''classes'', ''methods'', ''fields'']"

definition arsc_names :: "pystr list" where
  "arsc_names = map str [''configs'', ''entries'']"

subsection \<open>\<^verbatim>\<open>parse_diffuse_slim_report\<close>\<close>

text \<open>
  The blocks of the parser, each from the whole text of the report: the version codes,
  where \<^verbatim>\<open>int\<close> converts the old code before the new one, and the three tables.
\<close>

definition parse_version_codes :: "pystr \<Rightarrow> value_error + (int option \<times> int option)" where
  "parse_version_codes content =
     (case re_search version_code_at content of
        None \<Rightarrow> Inr (None, None)
      | Some (g1, g2) \<Rightarrow>
          (case py_int g1 of
             Inl e \<Rightarrow> Inl e
           | Inr old_code \<Rightarrow>
               (case py_int g2 of
                  Inl e \<Rightarrow> Inl e
                | Inr new_code \<Rightarrow> Inr (Some old_code, Some new_code))))"

definition parse_apk_sizes :: "pystr \<Rightarrow> value_error + apk_size_tables" where
  "parse_apk_sizes content =
     (case re_search apk_table_at content of
        None \<Rightarrow> Inr \<lparr>apk_compressed = Map.empty, apk_uncompressed = Map.empty\<rparr>
      | Some table_content \<Rightarrow>
          apk_rows \<lparr>apk_compressed = Map.empty, apk_uncompressed = Map.empty\<rparr>
            (split newline (strip table_content)))"

definition parse_dex_metrics :: "pystr \<Rightarrow> value_error + (pystr \<rightharpoonup> int)" where
  "parse_dex_metrics content =
     (case re_search dex_table_at content of
        None \<Rightarrow> Inr Map.empty
      | Some table_content \<Rightarrow>
          metric_rows dex_names Map.empty (split newline (strip table_content)))"

definition parse_arsc_metrics :: "pystr \<Rightarrow> value_error + (pystr \<rightharpoonup> int)" where
  "parse_arsc_metrics content =
     (case re_search arsc_table_at content of
        None \<Rightarrow> Inr Map.empty
      | Some table_content \<Rightarrow>
          metric_rows arsc_names Map.empty (split newline (strip table_content)))"

text \<open>
  \<^verbatim>\<open>str(e)\<close> for the two errors: the text \<^verbatim>\<open>float\<close> was given is shown in quotes (it
  has digits and dots only), the number of digits \<^verbatim>\<open>int\<close> was given in decimal.
\<close>

fun error_text :: "value_error \<Rightarrow> pystr" where
  "error_text (ValueError s) = str ''could not convert string to float: '' @ [quote] @ s @ [quote]"
| "error_text (ValueErrorDigits n) =
     str ''Exceeds the limit ('' @ decimal_text int_max_str_digits @
     str '' digits) for integer string conversion: value has '' @ decimal_text n @
     str '' digits; use sys.set_int_max_str_digits() to increase the limit''"

text \<open>
  The body of the \<^verbatim>\<open>try\<close> block after the header is found: the blocks in the order of
  the source, the first exception ending the body.
\<close>

definition parse_body :: "pystr \<Rightarrow> pystr \<Rightarrow> pystr \<Rightarrow> value_error + parsed_report" where
  "parse_body old_v new_v content =
     (case parse_version_codes content of
        Inl e \<Rightarrow> Inl e
      | Inr (old_code, new_code) \<Rightarrow>
          (case parse_apk_sizes content of
             Inl e \<Rightarrow> Inl e
           | Inr sizes \<Rightarrow>
               (case parse_dex_metrics content of
                  Inl e \<Rightarrow> Inl e
                | Inr dex_table \<Rightarrow>
                    (case parse_arsc_metrics content of
                       Inl e \<Rightarrow> Inl e
                     | Inr arsc_table \<Rightarrow>
                         Inr \<lparr>old_version = old_v, new_version = new_v,
                              old_version_code = old_code, new_version_code = new_code,
                              apk_sizes = sizes,
                              dex_metrics = dex_table,
                              arsc_metrics = arsc_table\<rparr>))))"

text \<open>
  The parser gets the name of the file and the text read from it, and returns what it
  logs together with its result; \<open>None\<close> is the \<^verbatim>\<open>return None\<close> of a rejected report.
  An exception raised inside the \<^verbatim>\<open>try\<close> block ends in the handler, which logs it and
  rejects the report.
\<close>

definition parse_diffuse_slim_report :: "pystr \<Rightarrow> pystr \<Rightarrow> log_entry list \<times> parsed_report option" where
  "parse_diffuse_slim_report name content =
     (case re_search header_at content of
        None \<Rightarrow> ([LogError (str ''Could not find version info in '' @ name)], None)
      | Some (old_v, new_v) \<Rightarrow>
          (case parse_body old_v new_v content of
             Inl e \<Rightarrow> ([LogError (str ''Failed to parse '' @ name @ str '': '' @ error_text e)], None)
           | Inr report \<Rightarrow> ([], Some report)))"

text \<open>
  The loop of \<^verbatim>\<open>main\<close> over the report files, each given by its name and its text: a
  rejected report is skipped and the loop goes on.
\<close>

fun main_parse_loop :: "(pystr \<times> pystr) list \<Rightarrow> log_entry list \<times> parsed_report list" where
  "main_parse_loop [] = ([], [])"
| "main_parse_loop ((name, content) # slim_files) =
     (let (log1, parsed) = parse_diffuse_slim_report name content;
          (log2, parsed_reports) = main_parse_loop slim_files;
          info = LogInfo (str ''Parsing '' @ name @ str ''...'')
      in case parsed of
           None \<Rightarrow> (info # log1 @ log2, parsed_reports)
         | Some p \<Rightarrow>
             (info # log1 @
                LogSuccess (str ''  '' @ [10003] @ str '' '' @ old_version p @ str '' '' @ [arrow] @
                            str '' '' @ new_version p) # log2,
              p # parsed_reports))"

section \<open>Timeline builder\<close>

text \<open>
  \<^verbatim>\<open>sorted(parsed_reports, key=...)\<close> is a stable comparison sort that compares keys
  with \<^verbatim>\<open><\<close> only, and \<^verbatim>\<open><\<close> raises \<^verbatim>\<open>TypeError\<close> when an operand is \<^verbatim>\<open>None\<close>. The
  model is the stable insertion sort with that comparison. On integer keys every stable
  sort gives the same list; a comparison sort compares every element of a list of two or
  more at least once, so it raises exactly when such a list holds a key \<^verbatim>\<open>None\<close>.
\<close>

definition py_lt :: "int option \<Rightarrow> int option \<Rightarrow> build_error + bool" where
  "py_lt a b =
     (case a of
        None \<Rightarrow> Inl TypeError
      | Some x \<Rightarrow> (case b of None \<Rightarrow> Inl TypeError | Some y \<Rightarrow> Inr (x < y)))"

fun py_insort :: "parsed_report \<Rightarrow> parsed_report list \<Rightarrow> build_error + parsed_report list" where
  "py_insort x [] = Inr [x]"
| "py_insort x (y # ys) =
     (case py_lt (new_version_code y) (new_version_code x) of
        Inl e \<Rightarrow> Inl e
      | Inr True \<Rightarrow> (case py_insort x ys of Inl e \<Rightarrow> Inl e | Inr zs \<Rightarrow> Inr (y # zs))
      | Inr False \<Rightarrow> Inr (x # y # ys))"

fun py_sorted :: "parsed_report list \<Rightarrow> build_error + parsed_report list" where
  "py_sorted [] = Inr []"
| "py_sorted (x # xs) =
     (case py_sorted xs of Inl e \<Rightarrow> Inl e | Inr ys \<Rightarrow> py_insort x ys)"

definition old_snapshot :: "parsed_report \<Rightarrow> snapshot" where
  "old_snapshot r =
     \<lparr>version = old_version r, versionCode = old_version_code r,
      compressed = apk_compressed (apk_sizes r), uncompressed = apk_uncompressed (apk_sizes r),
      dex = dex_metrics r, arsc = arsc_metrics r\<rparr>"

definition new_snapshot :: "parsed_report \<Rightarrow> snapshot" where
  "new_snapshot r =
     \<lparr>version = new_version r, versionCode = new_version_code r,
      compressed = apk_compressed (apk_sizes r), uncompressed = apk_uncompressed (apk_sizes r),
      dex = dex_metrics r, arsc = arsc_metrics r\<rparr>"

definition build_cumulative_data :: "parsed_report list \<Rightarrow> build_error + snapshot list" where
  "build_cumulative_data parsed_reports =
     (if parsed_reports = [] then Inr []
      else case py_sorted parsed_reports of
        Inl e \<Rightarrow> Inl e
      | Inr sorted_reports \<Rightarrow>
          (case sorted_reports of
             [] \<Rightarrow> Inl IndexError
           | first_report # rest \<Rightarrow>
               Inr (old_snapshot first_report # map new_snapshot sorted_reports)))"

section \<open>Notions used in the statements\<close>

text \<open>A sign is one of the two characters the number pattern accepts before the digits.\<close>

definition is_sign :: "nat \<Rightarrow> bool" where
  "is_sign c \<longleftrightarrow> c = plus_sign \<or> c = minus_sign"

text \<open>The tail of an integer token: each group of digits with the comma before it.\<close>

definition comma_groups :: "pystr list \<Rightarrow> pystr" where
  "comma_groups groups = concat (map (Cons comma) groups)"

text \<open>The sort key of a report whose version code is known.\<close>

definition code_key :: "parsed_report \<Rightarrow> int" where
  "code_key r = (case new_version_code r of None \<Rightarrow> 0 | Some c \<Rightarrow> c)"

text \<open>
  A chain of reports over the versions \<open>v\<^sub>0, \<dots>, v\<^sub>n\<close>, each a label with its version
  code, the codes strictly increasing: report \<open>i\<close> compares \<open>v\<^sub>i\<close> with \<open>v\<^sub>i\<^sub>+\<^sub>1\<close>, so
  the old side of every report is the new side of the one before it.
\<close>

definition labelled :: "(pystr \<times> int) list \<Rightarrow> (pystr \<times> int option) list" where
  "labelled versions = map (\<lambda>(v, c). (v, Some c)) versions"

definition chain :: "(pystr \<times> int) list \<Rightarrow> parsed_report list \<Rightarrow> bool" where
  "chain versions reports \<longleftrightarrow>
     reports \<noteq> [] \<and> sorted_wrt (<) (map snd versions) \<and>
     map (\<lambda>r. (old_version r, old_version_code r)) reports = butlast (labelled versions) \<and>
     map (\<lambda>r. (new_version r, new_version_code r)) reports = tl (labelled versions)"

text \<open>The invariant of a timeline: every version code is known and smaller than all later ones.\<close>

definition strictly_increasing :: "snapshot list \<Rightarrow> bool" where
  "strictly_increasing timeline =
     sorted_wrt (\<lambda>a b. case (versionCode a, versionCode b) of
                            (Some x, Some y) \<Rightarrow> x < y | _ \<Rightarrow> False) timeline"

section \<open>Example inputs\<close>

text \<open>A parsed report with one entry in its table of compressed sizes.\<close>

definition example_report ::
  "string \<Rightarrow> int option \<Rightarrow> string \<Rightarrow> int option \<Rightarrow> real \<Rightarrow> parsed_report" where
  "example_report old_v old_c new_v new_c total_size =
     \<lparr>old_version = str old_v, new_version = str new_v,
      old_version_code = old_c, new_version_code = new_c,
      apk_sizes = \<lparr>apk_compressed = [str ''total'' \<mapsto> total_size], apk_uncompressed = Map.empty\<rparr>,
      dex_metrics = Map.empty, arsc_metrics = Map.empty\<rparr>"

text \<open>Report texts: cells joined by the column separator, lines joined by line ends.\<close>

fun cells :: "string list \<Rightarrow> pystr" where
  "cells [] = []"
| "cells [x] = str x"
| "cells (x # y # ys) = str x @ [32, vbar, 32] @ cells (y # ys)"

fun text_lines :: "pystr list \<Rightarrow> pystr" where
  "text_lines [] = []"
| "text_lines [x] = x"
| "text_lines (x # y # ys) = x @ [newline] @ text_lines (y # ys)"

definition example_header :: pystr where
  "example_header = str ''Diffuse Comparison: 1.0.0 '' @ [arrow] @ str '' 1.0.1''"

definition example_rule :: pystr where
  "example_rule = [hrule, hrule, hrule, hrule, hrule, hrule]"

text \<open>A report whose APK section has the rows \<^verbatim>\<open>dex\<close> and \<^verbatim>\<open>total\<close>.\<close>

definition example_two_rows :: pystr where
  "example_two_rows = text_lines
     [example_header,
      cells ['' APK'', ''compressed'', ''uncompressed''],
      example_rule,
      cells ['' dex'', ''3.1 MiB'', ''3.2 MiB'', ''+0.1 MiB'', ''7.1 MiB'', ''7.2 MiB'', ''+0.1 MiB''],
      cells [''total'', ''5.8 MiB'', ''5.9 MiB'', ''+0.1 MiB'', ''9.4 MiB'', ''9.5 MiB'', ''+0.1 MiB''],
      example_rule]"

definition example_apk_row_report :: parsed_report where
  "example_apk_row_report =
     \<lparr>old_version = str ''1.0.0'', new_version = str ''1.0.1'',
      old_version_code = None, new_version_code = None,
      apk_sizes = \<lparr>apk_compressed = [str ''dex'' \<mapsto> 3.2],
                   apk_uncompressed = [str ''dex'' \<mapsto> 7.2]\<rparr>,
      dex_metrics = Map.empty, arsc_metrics = Map.empty\<rparr>"

text \<open>The same tables under a first line that is not the comparison header.\<close>

definition example_no_header :: pystr where
  "example_no_header = text_lines
     [str ''OLD: old.apk'',
      cells ['' APK'', ''compressed'', ''uncompressed''],
      example_rule,
      cells ['' dex'', ''3.1 MiB'', ''3.2 MiB'', ''+0.1 MiB'', ''7.1 MiB'', ''7.2 MiB'', ''+0.1 MiB''],
      example_rule]"

text \<open>A report without a DEX section whose APK row has a dot for a number.\<close>

definition example_bad_cell :: pystr where
  "example_bad_cell = text_lines
     [example_header,
      cells ['' APK'', ''compressed'', ''uncompressed''],
      example_rule,
      cells ['' dex'', ''3.1 MiB'', ''. MiB'', ''+0.1 MiB'', ''7.1 MiB'', ''7.2 MiB'', ''+0.1 MiB''],
      example_rule]"

text \<open>
  A report with the header and no table section, whose version-code row has a new code of
  4301 nines.
\<close>

definition example_long_code :: pystr where
  "example_long_code = text_lines
     [example_header,
      cells ['' version code'', ''12''] @ [32, vbar, 32] @ replicate 4301 57]"

text \<open>A slim report: the APK table, the version codes and the ARSC table, no DEX section.\<close>

definition example_slim :: pystr where
  "example_slim = text_lines
     [example_header,
      cells ['' APK'', ''compressed'', ''uncompressed''],
      example_rule,
      cells [''total'', ''5.8 MiB'', ''5.9 MiB'', ''+0.1 MiB'', ''9.4 MiB'', ''9.5 MiB'', ''+0.1 MiB''],
      example_rule,
      [],
      cells ['' version code'', ''12'', ''13''],
      [],
      cells ['' ARSC'', ''old'', ''new'', ''diff''],
      example_rule,
      cells ['' configs'', ''108'', ''109'', ''+1''],
      cells ['' entries'', ''333'', ''1,347'', ''+1014 (+1014 -0)'']]"

definition example_slim_report :: parsed_report where
  "example_slim_report =
     \<lparr>old_version = str ''1.0.0'', new_version = str ''1.0.1'',
      old_version_code = Some 12, new_version_code = Some 13,
      apk_sizes = \<lparr>apk_compressed = [str ''total'' \<mapsto> 5.9],
                   apk_uncompressed = [str ''total'' \<mapsto> 9.5]\<rparr>,
      dex_metrics = Map.empty,
      arsc_metrics = [str ''configs'' \<mapsto> 109, str ''entries'' \<mapsto> 1347]\<rparr>"

section \<open>Properties of the unit value parser\<close>

subsection \<open>Runs, tokens and stripping\<close>

lemma run_append:
  assumes "list_all P g" and "\<forall>c cs. X = c # cs \<longrightarrow> \<not> P c"
  shows "takeWhile P (g @ X) = g" and "dropWhile P (g @ X) = X"
proof -
  have "takeWhile P X = []" using assms(2) by (cases X) auto
  moreover have "dropWhile P X = X" using assms(2) by (cases X) auto
  ultimately show "takeWhile P (g @ X) = g" and "dropWhile P (g @ X) = X"
    using assms(1) by (simp_all add: list_all_iff takeWhile_append2 dropWhile_append2)
qed

text \<open>
  Below U+0660 the digits are the ASCII digits, and no digit lies between the runs that
  end at U+1099 and begin at U+17E0, nor between those that end at U+1C59 and begin at
  U+A620: where the whitespace beyond Latin-1 and the glyphs of the tables lie.
\<close>

lemma is_digit_ascii: "c < 1632 \<Longrightarrow> is_digit c \<longleftrightarrow> 48 \<le> c \<and> c \<le> 57"
  unfolding is_digit_def digit_zeros_def by simp linarith

lemma digit_of_ascii: "c < 1632 \<Longrightarrow> digit_of c = (if 48 \<le> c \<and> c \<le> 57 then c - 48 else 0)"
  unfolding digit_of_def digit_zeros_def by simp

lemma not_digit_between:
  "4250 \<le> c \<and> c < 6112 \<or> 7258 \<le> c \<and> c < 42528 \<Longrightarrow> \<not> is_digit c"
  unfolding is_digit_def digit_zeros_def by simp linarith

lemma not_digit_glyphs:
  "\<not> is_digit arrow" "\<not> is_digit hrule" "\<not> is_digit vbar" "\<not> is_digit 10003"
  by (simp_all add: not_digit_between arrow_def hrule_def vbar_def)

lemma not_digit_comma: "\<not> is_digit comma"
  by (simp add: is_digit_ascii comma_def)

lemma re_comma_groups_of_groups:
  assumes "\<forall>g\<in>set groups. g \<noteq> [] \<and> list_all is_digit g"
    and "\<forall>d ds. is_digit d \<longrightarrow> rest \<noteq> d # ds \<and> rest \<noteq> comma # d # ds"
  shows "re_comma_groups (concat (map (Cons comma) groups) @ rest) = concat (map (Cons comma) groups)"
  using assms(1)
proof (induction groups)
  case Nil
  show ?case
  proof (cases rest)
    case Nil
    then show ?thesis by simp
  next
    case (Cons c cs)
    have "takeWhile is_digit cs = []" if "c = comma"
      using that assms(2) Cons by (cases cs) auto
    with Cons show ?thesis by auto
  qed
next
  case (Cons g groups)
  let ?X = "concat (map (Cons comma) groups) @ rest"
  from Cons.prems have g: "g \<noteq> []" "list_all is_digit g" by simp_all
  have X: "\<forall>c cs. ?X = c # cs \<longrightarrow> \<not> is_digit c"
    using assms(2) not_digit_comma by (cases groups) auto
  from run_append [OF g(2) X] g(1) Cons show ?case
    by simp
qed

lemma sign_not_digit: "is_sign c \<Longrightarrow> \<not> is_digit c"
  by (auto simp: is_sign_def is_digit_ascii plus_sign_def minus_sign_def)

lemma unsigned_at_token:
  assumes "d0 \<noteq> []" "list_all is_digit d0"
    and "\<forall>g\<in>set groups. g \<noteq> [] \<and> list_all is_digit g"
    and "\<forall>d ds. is_digit d \<longrightarrow> rest \<noteq> d # ds \<and> rest \<noteq> comma # d # ds"
  shows "unsigned_at (d0 @ comma_groups groups @ rest) = Some (d0 @ comma_groups groups)"
proof -
  let ?X = "comma_groups groups @ rest"
  have X: "\<forall>c cs. ?X = c # cs \<longrightarrow> \<not> is_digit c"
    using assms(4) not_digit_comma by (cases groups) (auto simp: comma_groups_def)
  from run_append [OF assms(2) X] assms(1) re_comma_groups_of_groups [OF assms(3,4)]
  show ?thesis by (simp add: unsigned_at_def comma_groups_def)
qed

lemma unsigned_at_not_digit:
  "\<forall>c cs. s = c # cs \<longrightarrow> \<not> is_digit c \<Longrightarrow> unsigned_at s = None"
  by (cases s) (simp_all add: unsigned_at_def)

lemma number_at_token:
  assumes "sg = [] \<or> (\<exists>c. sg = [c] \<and> is_sign c)"
    and "d0 \<noteq> []" "list_all is_digit d0"
    and "\<forall>g\<in>set groups. g \<noteq> [] \<and> list_all is_digit g"
    and "\<forall>d ds. is_digit d \<longrightarrow> rest \<noteq> d # ds \<and> rest \<noteq> comma # d # ds"
  shows "number_at (sg @ d0 @ comma_groups groups @ rest) = Some (sg @ d0 @ comma_groups groups)"
proof -
  note u = unsigned_at_token [OF assms(2-5)]
  from assms(1) show ?thesis
  proof
    assume "sg = []"
    moreover obtain d ds where d: "d0 = d # ds" using assms(2) by (cases d0) auto
    moreover have "\<not> is_sign d" using d assms(3) sign_not_digit by auto
    ultimately show ?thesis using u by (simp add: number_at_def is_sign_def)
  next
    assume "\<exists>c. sg = [c] \<and> is_sign c"
    then obtain c where "sg = [c]" "is_sign c" by blast
    then show ?thesis using u by (simp add: number_at_def is_sign_def)
  qed
qed

lemma number_at_before_token:
  assumes "\<not> is_digit c"
    and "\<forall>c cs. s = c # cs \<longrightarrow> \<not> is_digit c \<or> \<not> is_sign c"
    and "is_sign c \<longrightarrow> (\<forall>d ds. s = d # ds \<longrightarrow> \<not> is_digit d)"
  shows "number_at (c # s) = None"
proof -
  have 1: "unsigned_at (c # s) = None"
    using assms(1) by (simp add: unsigned_at_not_digit)
  have 2: "unsigned_at s = None" if "is_sign c"
    using that assms(3) by (simp add: unsigned_at_not_digit)
  show ?thesis using 1 2 by (auto simp: number_at_def is_sign_def)
qed

lemma re_search_number_skips:
  assumes "\<forall>c\<in>set pre. \<not> is_digit c"
    and "pre \<noteq> [] \<and> is_sign (last pre) \<longrightarrow> (\<forall>d ds. t = d # ds \<longrightarrow> \<not> is_digit d)"
    and "number_at t = Some m"
  shows "re_search number_at (pre @ t) = Some m"
  using assms(1,2)
proof (induction pre)
  case Nil
  with assms(3) show ?case by (cases t) simp_all
next
  case (Cons c pre)
  have "number_at (c # pre @ t) = None"
  proof (rule number_at_before_token)
    show "\<not> is_digit c" using Cons.prems(1) by simp
    show "\<forall>c cs. pre @ t = c # cs \<longrightarrow> \<not> is_digit c \<or> \<not> is_sign c"
      using sign_not_digit by blast
    show "is_sign c \<longrightarrow> (\<forall>d ds. pre @ t = d # ds \<longrightarrow> \<not> is_digit d)"
    proof (cases pre)
      case Nil
      with Cons.prems(2) show ?thesis by simp
    next
      case (Cons p ps)
      with Cons.prems(1) show ?thesis by simp
    qed
  qed
  moreover have "re_search number_at (pre @ t) = Some m"
  proof (rule Cons.IH)
    show "\<forall>c\<in>set pre. \<not> is_digit c" using Cons.prems(1) by simp
    show "pre \<noteq> [] \<and> is_sign (last pre) \<longrightarrow> (\<forall>d ds. t = d # ds \<longrightarrow> \<not> is_digit d)"
      using Cons.prems(2) by simp
  qed
  ultimately show ?case by simp
qed

lemma dropWhile_before_token:
  "t \<noteq> [] \<Longrightarrow> \<not> P (hd t) \<Longrightarrow> dropWhile P (xs @ t) = dropWhile P xs @ t"
  by (induction xs) (auto simp: neq_Nil_conv)

lemma strip_around_token:
  assumes "tok \<noteq> []" "\<not> is_space (hd tok)" "\<not> is_space (last tok)"
  shows "strip (pre @ tok @ rest) = dropWhile is_space pre @ tok @ rev (dropWhile is_space (rev rest))"
proof -
  have "dropWhile is_space (pre @ tok @ rest) = dropWhile is_space pre @ tok @ rest"
    using dropWhile_before_token [of "tok @ rest" is_space pre] assms(1,2) by simp
  moreover have "dropWhile is_space (rev rest @ rev tok @ rev (dropWhile is_space pre))
      = dropWhile is_space (rev rest) @ rev tok @ rev (dropWhile is_space pre)"
    using dropWhile_before_token [of "rev tok @ rev (dropWhile is_space pre)" is_space "rev rest"] assms(1,3)
    by (simp add: hd_rev)
  ultimately show ?thesis by (simp add: strip_def)
qed

lemma digit_not_space: "is_digit c \<Longrightarrow> \<not> is_space c"
proof (cases "c < 1632")
  case True
  assume "is_digit c"
  with True have "48 \<le> c \<and> c \<le> 57" by (simp add: is_digit_ascii)
  then show ?thesis by (simp add: is_space_def)
next
  case False
  assume d: "is_digit c"
  show ?thesis
  proof
    assume "is_space c"
    with False have "4250 \<le> c \<and> c < 6112 \<or> 7258 \<le> c \<and> c < 42528"
      unfolding is_space_def by linarith
    with d not_digit_between show False by blast
  qed
qed

lemma sign_not_space: "is_sign c \<Longrightarrow> \<not> is_space c"
  by (auto simp: is_sign_def plus_sign_def minus_sign_def is_space_def)

lemma rstrip_prefix: "\<exists>w. rest = rev (dropWhile P (rev rest)) @ w"
proof -
  have "rev rest = takeWhile P (rev rest) @ dropWhile P (rev rest)" by simp
  then have "rest = rev (dropWhile P (rev rest)) @ rev (takeWhile P (rev rest))"
    by (metis rev_append rev_rev_ident)
  then show ?thesis ..
qed

lemma lstrip_suffix: "\<exists>w. pre = w @ dropWhile P pre"
  by (metis takeWhile_dropWhile_id)

lemma comma_groups_last:
  assumes "\<forall>g\<in>set groups. g \<noteq> [] \<and> list_all is_digit g" "groups \<noteq> []"
  shows "comma_groups groups \<noteq> [] \<and> is_digit (last (comma_groups groups))"
  using assms
proof (induction groups)
  case Nil
  then show ?case by simp
next
  case (Cons g groups)
  show ?case
  proof (cases "groups = []")
    case True
    with Cons.prems show ?thesis
      by (auto simp: comma_groups_def list_all_iff)
  next
    case False
    with Cons have "comma_groups groups \<noteq> [] \<and> is_digit (last (comma_groups groups))" by simp
    then show ?thesis by (simp add: comma_groups_def)
  qed
qed

lemma filter_comma_groups:
  assumes "\<forall>g\<in>set groups. g \<noteq> [] \<and> list_all is_digit g"
  shows "filter (\<lambda>c. c \<noteq> comma) (comma_groups groups) = concat groups"
  using assms
proof (induction groups)
  case Nil
  then show ?case by (simp add: comma_groups_def)
next
  case (Cons g groups)
  have "filter (\<lambda>c. c \<noteq> comma) g = g"
    using Cons.prems not_digit_comma by (auto simp: list_all_iff filter_id_conv)
  with Cons show ?case by (simp add: comma_groups_def)
qed

lemma py_int_token:
  assumes "sg = [] \<or> sg = [plus_sign] \<or> sg = [minus_sign]"
    and "ds \<noteq> []" "list_all is_digit ds"
  shows "py_int (sg @ ds) =
           (if length ds \<le> int_max_str_digits
            then Inr ((if sg = [minus_sign] then - 1 else 1) * int (digits_value ds))
            else Inl (ValueErrorDigits (length ds)))"
proof -
  obtain d ds' where d: "ds = d # ds'" using assms(2) by (cases ds) auto
  with assms(3) have "\<not> is_sign d" using sign_not_digit by auto
  with d assms(1) show ?thesis
    by (auto simp: py_int_def Let_def is_sign_def plus_sign_def minus_sign_def)
qed

lemma re_search_number_none:
  assumes "\<forall>c\<in>set s. \<not> is_digit c"
  shows "re_search number_at s = None"
  using assms
proof (induction s)
  case Nil
  then show ?case by (simp add: number_at_def)
next
  case (Cons c s)
  have "number_at (c # s) = None"
    using Cons.prems sign_not_digit by (intro number_at_before_token) auto
  with Cons show ?case by simp
qed

lemma parse_number_value_none:
  assumes "\<forall>c\<in>set s. \<not> is_digit c"
  shows "parse_number_value s = Inr None"
proof -
  have "set (strip s) \<subseteq> set s"
  proof
    fix c assume "c \<in> set (strip s)"
    then have "c \<in> set (dropWhile is_space (rev (dropWhile is_space s)))"
      by (simp add: strip_def)
    then have "c \<in> set (rev (dropWhile is_space s))" by (rule set_dropWhileD)
    then have "c \<in> set (dropWhile is_space s)" by simp
    then show "c \<in> set s" by (rule set_dropWhileD)
  qed
  with assms have "\<forall>c\<in>set (strip s). \<not> is_digit c" by blast
  then show ?thesis by (simp add: parse_number_value_def re_search_number_none)
qed

lemma parse_number_value_token:
  assumes before: "\<forall>c\<in>set pre. \<not> is_digit c"
    and sign: "sg = [] \<or> sg = [plus_sign] \<or> sg = [minus_sign]"
    and first: "sg = [] \<and> pre \<noteq> [] \<longrightarrow> last pre \<noteq> plus_sign \<and> last pre \<noteq> minus_sign"
    and d0: "d0 \<noteq> []" "list_all is_digit d0"
    and groups: "\<forall>g\<in>set groups. g \<noteq> [] \<and> list_all is_digit g"
    and maximal: "\<forall>d ds. is_digit d \<longrightarrow> rest \<noteq> d # ds \<and> rest \<noteq> comma # d # ds"
  shows "parse_number_value (pre @ sg @ d0 @ comma_groups groups @ rest) =
           (if length (d0 @ concat groups) \<le> int_max_str_digits
            then Inr (Some ((if sg = [minus_sign] then - 1 else 1) *
                            int (digits_value (d0 @ concat groups))))
            else Inl (ValueErrorDigits (length (d0 @ concat groups))))"
proof -
  let ?tok = "sg @ d0 @ comma_groups groups"
  let ?pre = "dropWhile is_space pre"
  let ?rest = "rev (dropWhile is_space (rev rest))"
  have sign': "sg = [] \<or> (\<exists>c. sg = [c] \<and> is_sign c)"
    using sign by (auto simp: is_sign_def)
  have tok_ne: "?tok \<noteq> []" using d0 by simp
  have hd_tok: "\<not> is_space (hd ?tok)"
  proof -
    obtain d ds where "d0 = d # ds" using d0(1) by (cases d0) auto
    with d0(2) have "\<not> is_space (hd d0)" using digit_not_space by simp
    with sign' d0(1) show ?thesis using sign_not_space by auto
  qed
  have last_tok: "\<not> is_space (last ?tok)"
  proof (cases "groups = []")
    case True
    have "is_digit (last d0)" using d0 by (simp add: list_all_iff)
    with True d0(1) show ?thesis by (simp add: comma_groups_def digit_not_space)
  next
    case False
    from comma_groups_last [OF groups False] show ?thesis by (simp add: digit_not_space)
  qed
  have s: "strip (pre @ ?tok @ rest) = ?pre @ ?tok @ ?rest"
    using strip_around_token [OF tok_ne hd_tok last_tok] by simp
  obtain w where w: "rest = ?rest @ w" using rstrip_prefix by blast
  have maximal': "\<forall>d ds. is_digit d \<longrightarrow> ?rest \<noteq> d # ds \<and> ?rest \<noteq> comma # d # ds"
  proof (intro allI impI)
    fix d ds assume d: "is_digit d"
    show "?rest \<noteq> d # ds \<and> ?rest \<noteq> comma # d # ds"
    proof (rule ccontr)
      assume "\<not> ?thesis"
      then have "rest = d # (ds @ w) \<or> rest = comma # d # (ds @ w)"
        using w by (metis append_Cons)
      with maximal d show False by blast
    qed
  qed
  have m: "number_at (?tok @ ?rest) = Some ?tok"
    using number_at_token [OF sign' d0 groups maximal'] by simp
  have before': "\<forall>c\<in>set ?pre. \<not> is_digit c"
    using before set_dropWhileD by fast
  have first': "?pre \<noteq> [] \<and> is_sign (last ?pre) \<longrightarrow> (\<forall>d ds. ?tok @ ?rest = d # ds \<longrightarrow> \<not> is_digit d)"
  proof (intro impI allI)
    fix d ds assume a: "?pre \<noteq> [] \<and> is_sign (last ?pre)" and e: "?tok @ ?rest = d # ds"
    obtain v where v: "pre = v @ ?pre" using lstrip_suffix by blast
    with a have "pre \<noteq> []" "last pre = last ?pre" by (auto, metis last_appendR)
    with a first have "sg \<noteq> []" by (auto simp: is_sign_def)
    with sign' e show "\<not> is_digit d" using sign_not_digit by auto
  qed
  have "re_search number_at (?pre @ ?tok @ ?rest) = Some ?tok"
    using re_search_number_skips [OF before' first' m] .
  moreover have "pre @ ?tok @ rest \<noteq> []" using d0 by simp
  moreover have "py_int (filter (\<lambda>c. c \<noteq> comma) ?tok) =
      (if length (d0 @ concat groups) \<le> int_max_str_digits
       then Inr ((if sg = [minus_sign] then - 1 else 1) * int (digits_value (d0 @ concat groups)))
       else Inl (ValueErrorDigits (length (d0 @ concat groups))))"
  proof -
    have "filter (\<lambda>c. c \<noteq> comma) sg = sg"
      using sign by (auto simp: plus_sign_def minus_sign_def comma_def)
    moreover have "filter (\<lambda>c. c \<noteq> comma) d0 = d0"
      using d0(2) not_digit_comma by (auto simp: list_all_iff filter_id_conv)
    moreover have "list_all is_digit (d0 @ concat groups)"
      using d0(2) groups by (auto simp: list_all_iff)
    ultimately show ?thesis
      using py_int_token [OF sign, of "d0 @ concat groups"] d0(1) filter_comma_groups [OF groups]
      by simp
  qed
  ultimately show ?thesis
    using s by (simp add: parse_number_value_def)
qed

lemma dropWhile_all: "list_all P xs \<Longrightarrow> dropWhile P xs = []"
  by (simp add: list_all_iff)

lemma strip_padded:
  assumes "list_all is_space pad1" "list_all is_space pad2"
    and "tok \<noteq> []" "\<not> is_space (hd tok)" "\<not> is_space (last tok)"
  shows "strip (pad1 @ tok @ pad2) = tok"
proof -
  have "list_all is_space (rev pad2)" using assms(2) by (simp add: list_all_iff)
  then show ?thesis
    using strip_around_token [OF assms(3-5), of pad1 pad2] assms(1)
    by (simp add: dropWhile_all)
qed

lemma numch_not_space: "is_numch c \<Longrightarrow> \<not> is_space c"
  using digit_not_space by (auto simp: is_numch_def dot_def is_space_def)

lemma not_digit_dot: "\<not> is_digit dot"
  by (simp add: is_digit_ascii dot_def)

lemma py_float_decimal:
  assumes "list_all is_digit ip" "list_all is_digit fp" "ip \<noteq> [] \<or> fp \<noteq> []"
    and "num = ip @ dot # fp \<or> (fp = [] \<and> num = ip)"
  shows "py_float num = Inr (decimal_value ip fp)"
  using assms(4)
proof
  assume num: "num = ip @ dot # fp"
  have "takeWhile is_digit (ip @ dot # fp) = ip" "dropWhile is_digit (ip @ dot # fp) = dot # fp"
    using run_append [OF assms(1), of "dot # fp"] not_digit_dot by simp_all
  with num assms(2,3) show ?thesis by (auto simp: py_float_def)
next
  assume num: "fp = [] \<and> num = ip"
  have t: "takeWhile is_digit ip = ip" and d: "dropWhile is_digit ip = []"
    using assms(1) by (simp_all add: list_all_iff)
  from num assms(3) have "ip \<noteq> []" by simp
  then have "py_float ip = Inr (decimal_value ip [])"
    unfolding py_float_def Let_def t d by simp
  with num show ?thesis by simp
qed

lemma size_at_token:
  assumes num: "num \<noteq> []" "list_all is_numch num"
    and gap: "list_all is_space gap"
    and unit: "re_unit (u @ rest) = Some u" "u \<noteq> []" "\<not> is_numch (hd u)" "\<not> is_space (hd u)"
  shows "size_at (num @ gap @ u @ rest) = Some (num, u)"
proof -
  have X: "\<forall>c cs. gap @ u @ rest = c # cs \<longrightarrow> \<not> is_numch c"
  proof (cases gap)
    case Nil
    with unit(2,3) show ?thesis by (cases u) auto
  next
    case (Cons g gs)
    with gap have "is_space g" by simp
    with Cons show ?thesis using numch_not_space by auto
  qed
  have Y: "\<forall>c cs. u @ rest = c # cs \<longrightarrow> \<not> is_space c"
    using unit(2,4) by (cases u) auto
  from run_append [OF num(2) X] run_append [OF gap Y] num(1) unit(1)
  show ?thesis by (simp add: size_at_def re_run1_def)
qed

lemma re_unit_MiB: "re_unit (str ''MiB'' @ rest) = Some (str ''MiB'')"
  by (simp add: re_unit_def str_def)

lemma re_unit_KiB: "re_unit (str ''KiB'' @ rest) = Some (str ''KiB'')"
  by (simp add: re_unit_def str_def)

lemma re_unit_B: "re_unit (str ''B'' @ rest) = Some (str ''B'')"
  by (simp add: re_unit_def str_def)

lemma parse_size_value_padded:
  assumes pads: "list_all is_space pad1" "list_all is_space pad2" "list_all is_space gap"
    and num: "num \<noteq> []" "list_all is_numch num" "py_float num = Inr v"
    and unit: "re_unit u = Some u" "u \<noteq> []" "\<not> is_numch (hd u)" "\<not> is_space (hd u)"
      "\<not> is_space (last u)"
  shows "parse_size_value (pad1 @ num @ gap @ u @ pad2)
           = Inr (if u = str ''MiB'' then Some v
                  else if u = str ''KiB'' then Some (v / 1024)
                  else if u = str ''B'' then Some (v / (1024 * 1024)) else None)"
proof -
  let ?tok = "num @ gap @ u"
  obtain c cs where c: "num = c # cs" using num(1) by (cases num) auto
  with num(2) have "\<not> is_space (hd ?tok)" using numch_not_space by simp
  moreover have "\<not> is_space (last ?tok)" using unit(2,5) by simp
  ultimately have "strip (pad1 @ ?tok @ pad2) = ?tok"
    using strip_padded [OF pads(1,2), of ?tok] num(1) by simp
  then have s: "strip (pad1 @ num @ gap @ u @ pad2) = ?tok" by simp
  have "size_at ?tok = Some (num, u)"
    using size_at_token [OF num(1,2) pads(3), of u "[]"] unit by simp
  then have "re_search size_at ?tok = Some (num, u)"
    using c by simp
  with s num(1,3) show ?thesis
    by (simp add: parse_size_value_def)
qed

section \<open>Properties of the timeline builder\<close>

lemma py_insort_sorted_key:
  assumes "new_version_code x \<noteq> None" and "\<forall>r\<in>set ys. new_version_code r \<noteq> None"
  shows "py_insort x ys = Inr (insort_key code_key x ys)"
  using assms
  by (induction ys) (auto simp: py_lt_def code_key_def split: option.splits)

lemma py_sorted_sort_key:
  assumes "\<forall>r\<in>set rs. new_version_code r \<noteq> None"
  shows "py_sorted rs = Inr (sort_key code_key rs)"
  using assms
  by (induction rs) (simp_all add: py_insort_sorted_key)

lemma py_insort_length:
  "py_insort x ys = Inr zs \<Longrightarrow> length zs = Suc (length ys)"
  by (induction ys arbitrary: zs) (auto split: sum.splits bool.splits)

lemma py_insort_error:
  "py_insort x ys = Inl e \<Longrightarrow> e = TypeError \<and> ys \<noteq> []"
  by (induction ys) (auto simp: py_lt_def split: sum.splits bool.splits option.splits)

lemma py_insort_compares_head:
  "py_insort x (y # ys) = Inr zs \<Longrightarrow> new_version_code x \<noteq> None \<and> new_version_code y \<noteq> None"
  by (auto simp: py_lt_def split: sum.splits option.splits)

lemma py_sorted_length:
  "py_sorted rs = Inr ys \<Longrightarrow> length ys = length rs"
  by (induction rs arbitrary: ys) (auto split: sum.splits dest: py_insort_length)

lemma py_sorted_singleton: "py_sorted [r] = Inr [r]"
  by simp

lemma py_sorted_returns_codes:
  "py_sorted rs = Inr ys \<Longrightarrow> 2 \<le> length rs \<Longrightarrow> \<forall>r\<in>set rs. new_version_code r \<noteq> None"
proof (induction rs arbitrary: ys)
  case Nil
  then show ?case by simp
next
  case (Cons x xs)
  from Cons.prems(1) obtain ys' where ys': "py_sorted xs = Inr ys'" and ins: "py_insort x ys' = Inr ys"
    by (auto split: sum.splits)
  from Cons.prems(2) have "xs \<noteq> []" by auto
  with py_sorted_length [OF ys'] obtain y ys'' where cons: "ys' = y # ys''"
    by (cases ys') auto
  from ins cons have x: "new_version_code x \<noteq> None" and y: "new_version_code y \<noteq> None"
    using py_insort_compares_head by blast+
  show ?case
  proof (cases "2 \<le> length xs")
    case True
    with Cons.IH [OF ys'] x show ?thesis by simp
  next
    case False
    with \<open>xs \<noteq> []\<close> obtain z where "xs = [z]"
      by (cases xs) (auto simp: Suc_le_eq)
    with ys' cons have "z = y" by simp
    with \<open>xs = [z]\<close> x y show ?thesis by simp
  qed
qed

lemma py_sorted_error:
  "py_sorted rs = Inl e \<Longrightarrow>
     e = TypeError \<and> 2 \<le> length rs \<and> (\<exists>r\<in>set rs. new_version_code r = None)"
proof -
  assume err: "py_sorted rs = Inl e"
  have some: "\<exists>r\<in>set rs. new_version_code r = None"
  proof (rule ccontr)
    assume "\<not> (\<exists>r\<in>set rs. new_version_code r = None)"
    then have "\<forall>r\<in>set rs. new_version_code r \<noteq> None" by simp
    from py_sorted_sort_key [OF this] err show False by simp
  qed
  have len: "2 \<le> length rs"
  proof (cases rs)
    case Nil
    with err show ?thesis by simp
  next
    case (Cons x xs)
    show ?thesis
    proof (cases xs)
      case Nil
      with Cons err show ?thesis by simp
    next
      case (Cons y ys)
      with \<open>rs = x # xs\<close> show ?thesis by simp
    qed
  qed
  have "e = TypeError"
    using err
  proof (induction rs arbitrary: e)
    case Nil
    then show ?case by simp
  next
    case (Cons x xs)
    then show ?case
      by (auto split: sum.splits dest: py_insort_error)
  qed
  with some len show ?thesis by simp
qed

lemma py_sorted_none_raises:
  assumes "2 \<le> length rs" and "\<exists>r\<in>set rs. new_version_code r = None"
  shows "py_sorted rs = Inl TypeError"
proof (cases "py_sorted rs")
  case (Inl e)
  with py_sorted_error show ?thesis by blast
next
  case (Inr ys)
  with py_sorted_returns_codes assms show ?thesis by blast
qed

lemma build_returns:
  assumes "py_sorted rs = Inr (r # ys)" "rs \<noteq> []"
  shows "build_cumulative_data rs = Inr (old_snapshot r # new_snapshot r # map new_snapshot ys)"
  using assms by (simp add: build_cumulative_data_def)

lemma py_sorted_head_minimal:
  assumes "py_sorted rs = Inr (r # ys)"
  shows "r \<in> set rs \<and> (\<forall>r'\<in>set rs. \<forall>a b. new_version_code r = Some a \<longrightarrow> new_version_code r' = Some b \<longrightarrow> a \<le> b)"
proof (cases "2 \<le> length rs")
  case True
  with assms have all: "\<forall>r\<in>set rs. new_version_code r \<noteq> None"
    using py_sorted_returns_codes by blast
  then have eq: "r # ys = sort_key code_key rs"
    using assms py_sorted_sort_key by simp
  have mem: "set (r # ys) = set rs" and srt: "sorted (map code_key (r # ys))"
    unfolding eq by simp_all
  have "code_key r \<le> code_key r'" if "r' \<in> set rs" for r'
    using that mem srt by auto
  then have "\<forall>r'\<in>set rs. \<forall>a b. new_version_code r = Some a \<longrightarrow> new_version_code r' = Some b \<longrightarrow> a \<le> b"
    by (fastforce simp: code_key_def)
  with mem show ?thesis by auto
next
  case False
  with assms obtain x where "rs = [x]"
    by (cases rs; cases "tl rs") auto
  with assms show ?thesis by simp
qed

lemma filter_same_key_distinct:
  "distinct (map f xs) \<Longrightarrow> k \<in> set xs \<Longrightarrow> filter (\<lambda>x. f k = f x) xs = [k]"
proof (induction xs)
  case Nil
  then show ?case by simp
next
  case (Cons x xs)
  show ?case
  proof (cases "k = x")
    case True
    have "filter (\<lambda>y. f x = f y) xs = []"
      using Cons.prems(1) by (auto simp: filter_empty_conv)
    with True show ?thesis by simp
  next
    case False
    with Cons.prems have "k \<in> set xs" by simp
    moreover from this Cons.prems(1) have "f k \<noteq> f x" by (auto simp: image_iff)
    ultimately have "k \<in> set xs" "f k \<noteq> f x" by simp_all
    with Cons show ?thesis by simp
  qed
qed

lemma sort_key_permutation_of_strict:
  assumes "mset xs = mset ys" and "sorted_wrt (<) (map f ys)"
  shows "sort_key f xs = ys"
proof (rule properties_for_sort_key)
  show "mset ys = mset xs" using assms(1) by simp
  have dy: "distinct (map f ys)" and "sorted (map f ys)"
    using assms(2) by (simp_all add: strict_sorted_iff)
  then show "sorted (map f ys)" by simp
  have "mset (map f xs) = mset (map f ys)" using assms(1) by simp
  then have dx: "distinct (map f xs)" using dy mset_eq_imp_distinct_iff by blast
  fix k assume k: "k \<in> set ys"
  then have "k \<in> set xs" using assms(1) mset_eq_setD by blast
  with k dx dy show "filter (\<lambda>x. f k = f x) ys = filter (\<lambda>x. f k = f x) xs"
    by (simp add: filter_same_key_distinct)
qed

lemma sorted_wrt_tl: "sorted_wrt P xs \<Longrightarrow> sorted_wrt P (tl xs)"
  by (cases xs) simp_all

lemma chain_new_codes:
  assumes "chain versions reports"
  shows "map new_version_code reports = map Some (tl (map snd versions))"
proof -
  have "map new_version_code reports = map snd (map (\<lambda>r. (new_version r, new_version_code r)) reports)"
    by simp
  also have "\<dots> = map snd (tl (labelled versions))"
    using assms by (simp add: chain_def)
  also have "\<dots> = map Some (tl (map snd versions))"
    by (simp add: labelled_def map_tl split_def comp_def)
  finally show ?thesis .
qed

lemma chain_code_keys:
  assumes "chain versions reports"
  shows "map code_key reports = tl (map snd versions)"
proof -
  have "map code_key reports = map (\<lambda>c. case c of None \<Rightarrow> 0 | Some c \<Rightarrow> c) (map new_version_code reports)"
    by (simp add: code_key_def)
  also have "\<dots> = tl (map snd versions)"
    unfolding chain_new_codes [OF assms] by (simp add: comp_def)
  finally show ?thesis .
qed

lemma chain_sorted:
  assumes "chain versions reports" and "mset parsed_reports = mset reports"
  shows "py_sorted parsed_reports = Inr reports"
proof -
  have "\<forall>r\<in>set reports. new_version_code r \<noteq> None"
  proof
    fix r assume "r \<in> set reports"
    then have "new_version_code r \<in> set (map new_version_code reports)" by simp
    then show "new_version_code r \<noteq> None"
      unfolding chain_new_codes [OF assms(1)] by auto
  qed
  moreover have "set parsed_reports = set reports"
    using assms(2) mset_eq_setD by blast
  ultimately have "py_sorted parsed_reports = Inr (sort_key code_key parsed_reports)"
    by (simp add: py_sorted_sort_key)
  moreover have "sorted_wrt (<) (map code_key reports)"
    unfolding chain_code_keys [OF assms(1)]
    using assms(1) by (simp add: chain_def sorted_wrt_tl map_tl)
  ultimately show ?thesis
    using sort_key_permutation_of_strict [OF assms(2)] by simp
qed

lemma chain_timeline_labels:
  assumes "chain versions reports"
  shows "map (\<lambda>s. (version s, versionCode s)) (old_snapshot (hd reports) # map new_snapshot reports)
           = labelled versions"
proof -
  from assms have ne: "reports \<noteq> []"
    and old: "map (\<lambda>r. (old_version r, old_version_code r)) reports = butlast (labelled versions)"
    and new: "map (\<lambda>r. (new_version r, new_version_code r)) reports = tl (labelled versions)"
    by (simp_all add: chain_def)
  from ne new have lv: "labelled versions \<noteq> []" by auto
  from ne old have "butlast (labelled versions) \<noteq> []" by auto
  then have "hd (butlast (labelled versions)) = hd (labelled versions)"
    by (cases "labelled versions") (auto split: if_splits)
  moreover have "hd (butlast (labelled versions)) = (old_version (hd reports), old_version_code (hd reports))"
    using ne hd_map [of reports "\<lambda>r. (old_version r, old_version_code r)"] old by simp
  ultimately have "(old_version (hd reports), old_version_code (hd reports)) = hd (labelled versions)"
    by simp
  moreover have "map (\<lambda>s. (version s, versionCode s)) (map new_snapshot reports) = tl (labelled versions)"
    using new by (simp add: new_snapshot_def comp_def)
  ultimately show ?thesis
    using lv by (simp add: old_snapshot_def)
qed

section \<open>Properties of the report parser\<close>

lemma re_skip_to_newline_free:
  "re_skip_to [newline] s = Some (g, r) \<Longrightarrow> newline \<notin> set g"
proof (induction s arbitrary: g)
  case Nil
  then show ?case by simp
next
  case (Cons c s)
  show ?case
  proof (cases "c = newline")
    case True
    with Cons.prems show ?thesis by simp
  next
    case False
    with Cons.prems obtain g' where "g = c # g'" "re_skip_to [newline] s = Some (g', r)"
      by auto
    with Cons.IH False show ?thesis by simp
  qed
qed

lemma apk_table_at_one_line:
  assumes "apk_table_at s = Some table_content"
  shows "newline \<notin> set table_content"
proof -
  from assms obtain r9 r10 where "re_skip_to [newline] r9 = Some (table_content, r10)"
    by (auto simp: apk_table_at_def split: Option.bind_splits)
  then show ?thesis by (rule re_skip_to_newline_free)
qed

lemma re_search_Some:
  "re_search m s = Some x \<Longrightarrow> \<exists>t. m t = Some x"
  by (induction s) (auto split: option.splits)

lemma split_one_line: "sep \<notin> set s \<Longrightarrow> split sep s = [s]"
  by (induction s) auto

lemma strip_subset: "set (strip s) \<subseteq> set s"
proof
  fix c assume "c \<in> set (strip s)"
  then have "c \<in> set (dropWhile is_space (rev (dropWhile is_space s)))"
    by (simp add: strip_def)
  then have "c \<in> set (rev (dropWhile is_space s))" by (rule set_dropWhileD)
  then have "c \<in> set (dropWhile is_space s)" by simp
  then show "c \<in> set s" by (rule set_dropWhileD)
qed

text \<open>
  The group of the APK pattern never holds a line end, so the loop over the rows of the
  APK table runs for one line: the line after the first border rule.
\<close>

lemma apk_table_single_row:
  assumes "re_search apk_table_at content = Some table_content"
  shows "split newline (strip table_content) = [strip table_content]"
proof -
  from re_search_Some [OF assms] obtain t where "apk_table_at t = Some table_content" ..
  then have "newline \<notin> set table_content" by (rule apk_table_at_one_line)
  with strip_subset have "newline \<notin> set (strip table_content)" by blast
  then show ?thesis by (rule split_one_line)
qed

text \<open>A text in which the label of the header line occurs nowhere has no header.\<close>

lemma header_absent_without_label:
  "re_skip_to (str ''Diffuse Comparison:'') content = None \<Longrightarrow> re_search header_at content = None"
proof (induction content)
  case Nil
  then show ?case by (simp add: header_at_def str_def)
next
  case (Cons c content)
  from Cons.prems have lit: "re_lit (str ''Diffuse Comparison:'') (c # content) = None"
    and rest: "re_skip_to (str ''Diffuse Comparison:'') content = None"
    by (auto split: option.splits)
  from lit have "header_at (c # content) = None"
    by (simp add: header_at_def)
  with Cons.IH [OF rest] show ?case by simp
qed

text \<open>
  The same for every pattern that begins with a literal: a text in which the literal
  occurs nowhere has no match.
\<close>

lemma search_absent_without_label:
  assumes "\<And>s. re_lit lit s = None \<Longrightarrow> m s = None"
    and "re_skip_to lit content = None"
  shows "re_search m content = None"
  using assms(2)
proof (induction content)
  case Nil
  then have "re_lit lit [] = None" by simp
  then show ?case by (simp add: assms(1))
next
  case (Cons c content)
  from Cons.prems have lit: "re_lit lit (c # content) = None"
    and rest: "re_skip_to lit content = None"
    by (auto split: option.splits)
  from assms(1) [OF lit] Cons.IH [OF rest] show ?case by simp
qed

lemma apk_absent_without_label:
  "re_skip_to (str ''APK'') content = None \<Longrightarrow> re_search apk_table_at content = None"
  by (rule search_absent_without_label [of "str ''APK''"]) (simp_all add: apk_table_at_def)

lemma dex_absent_without_label:
  "re_skip_to (str ''DEX'') content = None \<Longrightarrow> re_search dex_table_at content = None"
  by (rule search_absent_without_label [of "str ''DEX''"]) (simp_all add: dex_table_at_def)

lemma arsc_absent_without_label:
  "re_skip_to (str ''ARSC'') content = None \<Longrightarrow> re_search arsc_table_at content = None"
  by (rule search_absent_without_label [of "str ''ARSC''"]) (simp_all add: arsc_table_at_def)

lemma re_skip_to_replicate:
  "lit \<noteq> [] \<Longrightarrow> hd lit \<noteq> c \<Longrightarrow> re_skip_to lit (replicate n c) = None"
  by (induction n) (auto simp: neq_Nil_conv)

text \<open>\<^verbatim>\<open>int\<close> on a run of one digit repeated: the run is converted up to the limit.\<close>

lemma py_int_replicate:
  assumes "0 < n" "c \<noteq> minus_sign" "c \<noteq> plus_sign"
  shows "py_int (replicate n c) =
           (if int_max_str_digits < n then Inl (ValueErrorDigits n)
            else Inr (int (digits_value (replicate n c))))"
proof -
  from assms(1) obtain k where "n = Suc k" by (cases n) auto
  with assms(2,3) show ?thesis by (simp add: py_int_def Let_def)
qed

text \<open>An absent row or section raises nothing and gives no codes or an empty table.\<close>

lemma parse_version_codes_absent:
  "re_search version_code_at content = None \<Longrightarrow> parse_version_codes content = Inr (None, None)"
  by (simp add: parse_version_codes_def)

lemma parse_apk_sizes_absent:
  "re_search apk_table_at content = None \<Longrightarrow>
     parse_apk_sizes content = Inr \<lparr>apk_compressed = Map.empty, apk_uncompressed = Map.empty\<rparr>"
  by (simp add: parse_apk_sizes_def)

lemma parse_dex_metrics_absent:
  "re_search dex_table_at content = None \<Longrightarrow> parse_dex_metrics content = Inr Map.empty"
  by (simp add: parse_dex_metrics_def)

lemma parse_arsc_metrics_absent:
  "re_search arsc_table_at content = None \<Longrightarrow> parse_arsc_metrics content = Inr Map.empty"
  by (simp add: parse_arsc_metrics_def)

lemma parse_report_header_present:
  assumes "re_search header_at content = Some (old_v, new_v)"
    and "parse_version_codes content = Inr (old_code, new_code)"
    and "parse_apk_sizes content = Inr sizes"
    and "parse_dex_metrics content = Inr dex_table"
    and "parse_arsc_metrics content = Inr arsc_table"
  shows "parse_diffuse_slim_report name content =
           ([], Some \<lparr>old_version = old_v, new_version = new_v,
                      old_version_code = old_code, new_version_code = new_code,
                      apk_sizes = sizes, dex_metrics = dex_table, arsc_metrics = arsc_table\<rparr>)"
  using assms by (simp add: parse_diffuse_slim_report_def parse_body_def)

lemma parse_report_raises:
  assumes "re_search header_at content = Some (old_v, new_v)"
    and "parse_version_codes content = Inl e"
  shows "parse_diffuse_slim_report name content =
           ([LogError (str ''Failed to parse '' @ name @ str '': '' @ error_text e)], None)"
  using assms by (simp add: parse_diffuse_slim_report_def parse_body_def)

section \<open>Evaluation of concrete inputs\<close>

lemmas text_defs = str_def strip_def is_space_def is_digit_ascii not_digit_glyphs is_numch_def
  newline_def plus_sign_def comma_def minus_sign_def dot_def quote_def arrow_def hrule_def vbar_def

lemmas size_defs = parse_size_value_def size_at_def re_run1_def re_unit_def py_float_def
  decimal_value_def digits_value_def digit_of_ascii

lemmas number_defs = parse_number_value_def number_at_def unsigned_at_def py_int_def
  int_max_str_digits_def digits_value_def digit_of_ascii Let_def

lemma parse_size_value_examples:
  "parse_size_value (str ''3.2 MiB'') = Inr (Some 3.2) \<and>
   parse_size_value (str ''469 KiB'') = Inr (Some (469 / 1024)) \<and>
   parse_size_value (str ''912 B'') = Inr (Some (912 / (1024 * 1024))) \<and>
   parse_size_value (str ''garbage'') = Inr None"
  by (simp add: text_defs size_defs)

lemma parse_number_value_examples:
  "parse_number_value (str ''21,481'') = Inr (Some 21481) \<and>
   parse_number_value (str ''+7 (+123 -116)'') = Inr (Some 7) \<and>
   parse_number_value (str ''  0  '') = Inr (Some 0) \<and>
   parse_number_value (str '''') = Inr None"
  by (simp add: text_defs number_defs)

text \<open>
  Digits of other scripts are read as the pattern and \<^verbatim>\<open>int\<close> read them: the first
  integer of the token U+0663, space, 5 is the Arabic-Indic three.
\<close>

lemma parse_number_value_arabic_indic:
  "parse_number_value [1635, 32, 53] = Inr (Some 3) \<and> parse_number_value [1635] = Inr (Some 3)"
  by (simp add: strip_def is_space_def parse_number_value_def number_at_def unsigned_at_def
      py_int_def int_max_str_digits_def digits_value_def Let_def plus_sign_def minus_sign_def
      comma_def is_digit_def digit_of_def digit_zeros_def)

lemmas regex_defs = header_at_def version_code_at_def apk_table_at_def dex_table_at_def
  arsc_table_at_def re_spaces1_def re_run1_def blank_line_at_def dex_end_at_def arsc_end_at_def

lemmas parser_defs = parse_diffuse_slim_report_def parse_body_def parse_version_codes_def
  parse_apk_sizes_def parse_dex_metrics_def parse_arsc_metrics_def apk_row_def
  store_new_sizes_def truthy_def metric_row_def dex_names_def arsc_names_def Let_def

lemmas example_defs = example_header_def example_rule_def

lemma example_two_rows_parsed:
  "parse_diffuse_slim_report (str ''a-slim.txt'') example_two_rows = ([], Some example_apk_row_report)"
  by (simp add: example_two_rows_def example_defs text_defs regex_defs parser_defs size_defs
      example_apk_row_report_def)

lemma example_no_header_search: "re_search header_at example_no_header = None"
  by (simp add: example_no_header_def example_defs text_defs regex_defs)

lemma example_bad_cell_header:
  "re_search header_at example_bad_cell = Some (str ''1.0.0'', str ''1.0.1'')"
  by (simp add: example_bad_cell_def example_defs text_defs regex_defs)

lemma example_bad_cell_dex: "re_search dex_table_at example_bad_cell = None"
  by (simp add: example_bad_cell_def example_defs text_defs regex_defs)

lemma example_bad_cell_apk: "parse_apk_sizes example_bad_cell = Inl (ValueError (str ''.''))"
  by (simp add: example_bad_cell_def example_defs text_defs regex_defs parser_defs size_defs)

lemma example_bad_cell_codes: "parse_version_codes example_bad_cell = Inr (None, None)"
  by (rule parse_version_codes_absent)
    (simp add: example_bad_cell_def example_defs text_defs regex_defs)

text \<open>
  The \<^verbatim>\<open>ValueError\<close> of \<^verbatim>\<open>float\<close> ends in the handler of the parser as the one of
  \<^verbatim>\<open>int\<close> does: the report with the dot for a number is rejected.
\<close>

lemma example_bad_cell_rejected:
  "parse_diffuse_slim_report (str ''b-slim.txt'') example_bad_cell
     = ([LogError (str ''Failed to parse '' @ str ''b-slim.txt'' @ str '': '' @
                   error_text (ValueError (str ''.'')))], None)"
  by (simp add: parse_diffuse_slim_report_def parse_body_def example_bad_cell_header
      example_bad_cell_codes example_bad_cell_apk)

lemma example_slim_header:
  "re_search header_at example_slim = Some (str ''1.0.0'', str ''1.0.1'')"
  by (simp add: example_slim_def example_defs text_defs regex_defs)

lemma example_slim_dex: "re_search dex_table_at example_slim = None"
  by (simp add: example_slim_def example_defs text_defs regex_defs)

lemma example_slim_apk:
  "parse_apk_sizes example_slim
     = Inr \<lparr>apk_compressed = [str ''total'' \<mapsto> 5.9], apk_uncompressed = [str ''total'' \<mapsto> 9.5]\<rparr>"
  by (simp add: example_slim_def example_defs text_defs regex_defs parser_defs size_defs)

lemma example_slim_arsc:
  "parse_arsc_metrics example_slim = Inr [str ''configs'' \<mapsto> 109, str ''entries'' \<mapsto> 1347]"
  by (simp add: example_slim_def example_defs text_defs regex_defs parser_defs number_defs)

lemma example_slim_codes: "parse_version_codes example_slim = Inr (Some 12, Some 13)"
  by (simp add: example_slim_def example_defs text_defs regex_defs parser_defs number_defs)



text \<open>
  The slim report is parsed as a whole: its only APK row is the total row, which is
  recorded with the new sizes 5.9 and 9.5; the version codes and the ARSC counts are read,
  and the table of the absent DEX section is empty.
\<close>

lemma example_slim_parsed:
  "parse_diffuse_slim_report (str ''d-slim.txt'') example_slim = ([], Some example_slim_report)"
  unfolding example_slim_report_def
  by (rule parse_report_header_present [OF example_slim_header example_slim_codes example_slim_apk
        parse_dex_metrics_absent [OF example_slim_dex] example_slim_arsc])

text \<open>
  A report with the header and no section, whose version-code row has a new code of 4301
  digits: \<^verbatim>\<open>int\<close> raises on it.
\<close>

lemma example_long_code_header:
  "re_search header_at example_long_code = Some (str ''1.0.0'', str ''1.0.1'')"
  by (simp add: example_long_code_def example_defs text_defs regex_defs)

lemma example_long_code_apk: "re_search apk_table_at example_long_code = None"
  by (rule apk_absent_without_label)
    (simp add: example_long_code_def example_defs text_defs re_skip_to_replicate)

lemma example_long_code_dex: "re_search dex_table_at example_long_code = None"
  by (rule dex_absent_without_label)
    (simp add: example_long_code_def example_defs text_defs re_skip_to_replicate)

lemma example_long_code_arsc: "re_search arsc_table_at example_long_code = None"
  by (rule arsc_absent_without_label)
    (simp add: example_long_code_def example_defs text_defs re_skip_to_replicate)

lemma example_long_code_match:
  "re_search version_code_at example_long_code = Some (str ''12'', replicate 4301 57)"
  by (simp add: example_long_code_def example_defs text_defs regex_defs)

lemma example_long_code_codes:
  "parse_version_codes example_long_code = Inl (ValueErrorDigits 4301)"
proof -
  have "py_int (str ''12'') = Inr 12"
    by (simp add: text_defs number_defs)
  moreover have "py_int (replicate 4301 57) = Inl (ValueErrorDigits 4301)"
    by (simp add: py_int_replicate int_max_str_digits_def minus_sign_def plus_sign_def)
  ultimately show ?thesis
    by (simp add: parse_version_codes_def example_long_code_match)
qed

section \<open>The claims\<close>

text \<open>
  C1. A list of reports that forms an unbroken chain over versions with strictly
  increasing version codes, given in any order, is built into the timeline of these
  versions in the order of their codes: it is one longer than the list of reports, it is
  the same for every permutation of the list, its version codes increase strictly from
  each entry to the next, and no version occurs twice. The codes increase over all the
  versions of the chain: the old code of the first report is below its new code, as in
  every report the data model admits.
\<close>

theorem chain_timeline:
  assumes "chain versions reports" and "mset parsed_reports = mset reports"
  shows "\<exists>timeline.
           build_cumulative_data parsed_reports = Inr timeline \<and>
           build_cumulative_data reports = Inr timeline \<and>
           timeline = old_snapshot (hd reports) # map new_snapshot reports \<and>
           length timeline = length parsed_reports + 1 \<and>
           map (\<lambda>s. (version s, versionCode s)) timeline = labelled versions \<and>
           strictly_increasing timeline \<and>
           distinct (map versionCode timeline)"
proof -
  let ?tl = "old_snapshot (hd reports) # map new_snapshot reports"
  from assms(1) have ne: "reports \<noteq> []" by (simp add: chain_def)
  then obtain r rs where rs: "reports = r # rs" by (cases reports) auto
  from assms(2) ne have ne': "parsed_reports \<noteq> []" by auto
  have len: "length parsed_reports = length reports"
    using assms(2) mset_eq_length by blast
  have b1: "build_cumulative_data parsed_reports = Inr ?tl"
    using chain_sorted [OF assms] ne' rs by (simp add: build_cumulative_data_def)
  have b2: "build_cumulative_data reports = Inr ?tl"
    using chain_sorted [OF assms(1), of reports] ne rs by (simp add: build_cumulative_data_def)
  have lab: "map (\<lambda>s. (version s, versionCode s)) ?tl = labelled versions"
    by (rule chain_timeline_labels [OF assms(1)])
  then have "map versionCode ?tl = map Some (map snd versions)"
  proof -
    have "map versionCode ?tl = map snd (map (\<lambda>s. (version s, versionCode s)) ?tl)"
      by (simp add: comp_def)
    also have "\<dots> = map snd (labelled versions)" using lab by simp
    also have "\<dots> = map Some (map snd versions)"
      by (simp add: labelled_def split_def comp_def)
    finally show ?thesis .
  qed
  then have codes: "map versionCode ?tl = map Some (map snd versions)" .
  from assms(1) have strict: "sorted_wrt (<) (map snd versions)" by (simp add: chain_def)
  have "sorted_wrt (\<lambda>a b. case (a, b) of (Some x, Some y) \<Rightarrow> x < y | _ \<Rightarrow> False)
          (map Some (map snd versions))"
    using strict by (simp add: sorted_wrt_map)
  then have inc: "strictly_increasing ?tl"
    unfolding strictly_increasing_def codes [symmetric] by (simp add: sorted_wrt_map)
  have "distinct (map snd versions)"
    using strict by (simp add: strict_sorted_iff)
  then have "distinct (map Some (map snd versions))"
    by (subst distinct_map) simp
  then have dist: "distinct (map versionCode ?tl)"
    unfolding codes .
  from b1 b2 len lab inc dist show ?thesis by simp
qed

theorem chain_timeline_witness:
  "chain [(str ''1.0.0'', 1), (str ''1.0.1'', 2), (str ''1.0.2'', 3), (str ''1.1.0'', 5)]
     [example_report ''1.0.0'' (Some 1) ''1.0.1'' (Some 2) 5.9,
      example_report ''1.0.1'' (Some 2) ''1.0.2'' (Some 3) 6.1,
      example_report ''1.0.2'' (Some 3) ''1.1.0'' (Some 5) 6.4] \<and>
   mset [example_report ''1.0.2'' (Some 3) ''1.1.0'' (Some 5) 6.4,
         example_report ''1.0.0'' (Some 1) ''1.0.1'' (Some 2) 5.9,
         example_report ''1.0.1'' (Some 2) ''1.0.2'' (Some 3) 6.1]
     = mset [example_report ''1.0.0'' (Some 1) ''1.0.1'' (Some 2) 5.9,
             example_report ''1.0.1'' (Some 2) ''1.0.2'' (Some 3) 6.1,
             example_report ''1.0.2'' (Some 3) ''1.1.0'' (Some 5) 6.4] \<and>
   (\<exists>timeline.
      build_cumulative_data
        [example_report ''1.0.2'' (Some 3) ''1.1.0'' (Some 5) 6.4,
         example_report ''1.0.0'' (Some 1) ''1.0.1'' (Some 2) 5.9,
         example_report ''1.0.1'' (Some 2) ''1.0.2'' (Some 3) 6.1] = Inr timeline \<and>
      map (\<lambda>s. (version s, versionCode s)) timeline
        = [(str ''1.0.0'', Some 1), (str ''1.0.1'', Some 2), (str ''1.0.2'', Some 3), (str ''1.1.0'', Some 5)])"
  using chain_timeline
    [of "[(str ''1.0.0'', 1), (str ''1.0.1'', 2), (str ''1.0.2'', 3), (str ''1.1.0'', 5)]"
        "[example_report ''1.0.0'' (Some 1) ''1.0.1'' (Some 2) 5.9,
          example_report ''1.0.1'' (Some 2) ''1.0.2'' (Some 3) 6.1,
          example_report ''1.0.2'' (Some 3) ''1.1.0'' (Some 5) 6.4]"
        "[example_report ''1.0.2'' (Some 3) ''1.1.0'' (Some 5) 6.4,
          example_report ''1.0.0'' (Some 1) ''1.0.1'' (Some 2) 5.9,
          example_report ''1.0.1'' (Some 2) ''1.0.2'' (Some 3) 6.1]"]
  by (simp add: chain_def labelled_def example_report_def)

text \<open>
  C2. The claim says that every data row of the APK section is recorded and that a total
  row with the new compressed size 5.9 MiB gives the entry \<^verbatim>\<open>total\<close> = 5.9. In the
  code the group of the APK pattern ends at the first line end, so only the row after the
  border rule is read: of the rows \<^verbatim>\<open>dex\<close> and \<^verbatim>\<open>total\<close> the first is recorded and
  the total is not.
\<close>

theorem apk_second_row_is_dropped:
  "map_option
     (\<lambda>r. (apk_compressed (apk_sizes r) (str ''dex''), apk_uncompressed (apk_sizes r) (str ''dex''),
           apk_compressed (apk_sizes r) (str ''total''), apk_uncompressed (apk_sizes r) (str ''total'')))
     (snd (parse_diffuse_slim_report (str ''a-slim.txt'') example_two_rows))
   = Some (Some 3.2, Some 7.2, None, None)"
  unfolding example_two_rows_parsed
  by (simp add: example_apk_row_report_def str_def)

text \<open>
  C3. A token made of a decimal number and one of the units \<^verbatim>\<open>MiB\<close>, \<^verbatim>\<open>KiB\<close>,
  \<^verbatim>\<open>B\<close>, with any whitespace around and between them, is parsed to the number in MiB:
  the number itself, the number divided by 1024, the number divided by 1024 * 1024. The
  four examples of the specification are instances; a token without a number and a unit
  gives \<^verbatim>\<open>None\<close>.
\<close>

theorem parse_size_value_units:
  assumes "list_all is_space pad1" "list_all is_space gap" "list_all is_space pad2"
    and "list_all is_digit ip" "list_all is_digit fp" "ip \<noteq> [] \<or> fp \<noteq> []"
    and "num = ip @ dot # fp \<or> (fp = [] \<and> num = ip)"
  shows "parse_size_value (pad1 @ num @ gap @ str ''MiB'' @ pad2) = Inr (Some (decimal_value ip fp)) \<and>
         parse_size_value (pad1 @ num @ gap @ str ''KiB'' @ pad2) = Inr (Some (decimal_value ip fp / 1024)) \<and>
         parse_size_value (pad1 @ num @ gap @ str ''B'' @ pad2)
           = Inr (Some (decimal_value ip fp / (1024 * 1024))) \<and>
         parse_size_value (str ''3.2 MiB'') = Inr (Some 3.2) \<and>
         parse_size_value (str ''469 KiB'') = Inr (Some (469 / 1024)) \<and>
         parse_size_value (str ''912 B'') = Inr (Some (912 / (1024 * 1024))) \<and>
         parse_size_value (str ''garbage'') = Inr None"
proof -
  have num: "num \<noteq> []" "list_all is_numch num"
    using assms(4-7) by (auto simp: list_all_iff is_numch_def)
  note fl = py_float_decimal [OF assms(4-7)]
  have "parse_size_value (pad1 @ num @ gap @ str ''MiB'' @ pad2) = Inr (Some (decimal_value ip fp))"
    using parse_size_value_padded [OF assms(1,3,2) num fl, of "str ''MiB''"] re_unit_MiB [of "[]"]
    by (simp add: text_defs)
  moreover have "parse_size_value (pad1 @ num @ gap @ str ''KiB'' @ pad2) = Inr (Some (decimal_value ip fp / 1024))"
    using parse_size_value_padded [OF assms(1,3,2) num fl, of "str ''KiB''"] re_unit_KiB [of "[]"]
    by (simp add: text_defs)
  moreover have "parse_size_value (pad1 @ num @ gap @ str ''B'' @ pad2)
           = Inr (Some (decimal_value ip fp / (1024 * 1024)))"
    using parse_size_value_padded [OF assms(1,3,2) num fl, of "str ''B''"] re_unit_B [of "[]"]
    by (simp add: text_defs)
  ultimately show ?thesis using parse_size_value_examples by simp
qed

theorem parse_size_value_units_witness:
  "list_all is_space (str ''  '') \<and> list_all is_space (str '' '') \<and> list_all is_space (str ''   '') \<and>
   list_all is_digit (str ''12'') \<and> list_all is_digit (str ''5'') \<and>
   parse_size_value (str ''  '' @ str ''12.5'' @ str '' '' @ str ''KiB'' @ str ''   '') = Inr (Some (12.5 / 1024))"
  using parse_size_value_units [of "str ''  ''" "str '' ''" "str ''   ''" "str ''12''" "str ''5''" "str ''12.5''"]
  by (simp add: text_defs decimal_value_def digits_value_def digit_of_ascii)

text \<open>
  C4. The claim says that \<^verbatim>\<open>parse_number_value\<close> returns the first integer of every
  token. \<^verbatim>\<open>int\<close> converts no more than 4300 digits: on the token of 4301 nines it
  raises \<^verbatim>\<open>ValueError\<close>, which \<^verbatim>\<open>parse_number_value\<close> does not catch.
\<close>

theorem parse_number_value_counterexample:
  "parse_number_value (replicate 4301 57) = Inl (ValueErrorDigits 4301)"
  using parse_number_value_token [of "[]" "[]" "replicate 4301 57" "[]" "[]"]
  by (simp add: comma_groups_def list_all_iff is_digit_ascii int_max_str_digits_def)

text \<open>
  C4, amended. \<^verbatim>\<open>parse_number_value\<close> returns the first integer of the token when it
  has no more digits than \<^verbatim>\<open>int\<close> converts: when no digit comes before it, its optional
  sign stands directly before its digits, and the digits with their comma groups are not
  followed by a further digit or comma group, the result is the number these digits denote
  with that sign, whatever follows. A token without a digit gives \<^verbatim>\<open>None\<close>. The four
  examples of the specification hold.
\<close>

theorem parse_number_value_first_integer:
  assumes "\<forall>c\<in>set pre. \<not> is_digit c"
    and "sg = [] \<or> sg = [plus_sign] \<or> sg = [minus_sign]"
    and "sg = [] \<and> pre \<noteq> [] \<longrightarrow> last pre \<noteq> plus_sign \<and> last pre \<noteq> minus_sign"
    and "d0 \<noteq> []" "list_all is_digit d0"
    and "\<forall>g\<in>set groups. g \<noteq> [] \<and> list_all is_digit g"
    and "\<forall>d ds. is_digit d \<longrightarrow> rest \<noteq> d # ds \<and> rest \<noteq> comma # d # ds"
    and "length (d0 @ concat groups) \<le> int_max_str_digits"
  shows "parse_number_value (pre @ sg @ d0 @ comma_groups groups @ rest)
           = Inr (Some ((if sg = [minus_sign] then - 1 else 1) *
                        int (digits_value (d0 @ concat groups)))) \<and>
         (\<forall>s. (\<forall>c\<in>set s. \<not> is_digit c) \<longrightarrow> parse_number_value s = Inr None) \<and>
         parse_number_value (str ''21,481'') = Inr (Some 21481) \<and>
         parse_number_value (str ''+7 (+123 -116)'') = Inr (Some 7) \<and>
         parse_number_value (str ''  0  '') = Inr (Some 0) \<and>
         parse_number_value (str '''') = Inr None"
proof -
  have "parse_number_value (pre @ sg @ d0 @ comma_groups groups @ rest)
           = Inr (Some ((if sg = [minus_sign] then - 1 else 1) *
                        int (digits_value (d0 @ concat groups))))"
    using parse_number_value_token [OF assms(1-7)] assms(8) by simp
  with parse_number_value_none parse_number_value_examples show ?thesis
    by simp
qed

theorem parse_number_value_first_integer_witness:
  "parse_number_value (str ''x '' @ [minus_sign] @ str ''1'' @ comma_groups [str ''234'', str ''567''] @ str '' (+1 -2)'')
     = Inr (Some (- 1234567))"
proof -
  have space: "\<not> is_digit 32" and x: "\<not> is_digit 120"
    by (simp_all add: is_digit_ascii)
  have digits: "is_digit 49" "is_digit 50" "is_digit 51" "is_digit 52" "is_digit 53" "is_digit 54"
    "is_digit 55"
    by (simp_all add: is_digit_ascii)
  have h1: "\<forall>c\<in>set (str ''x ''). \<not> is_digit c"
    using space x by (simp add: str_def)
  have h2: "[minus_sign] = [] \<or> [minus_sign] = [plus_sign] \<or> [minus_sign] = [minus_sign]"
    by simp
  have h3: "[minus_sign] = [] \<and> str ''x '' \<noteq> [] \<longrightarrow>
      last (str ''x '') \<noteq> plus_sign \<and> last (str ''x '') \<noteq> minus_sign"
    by simp
  have h4: "str ''1'' \<noteq> []"
    by (simp add: str_def)
  have h5: "list_all is_digit (str ''1'')"
    using digits by (simp add: str_def)
  have h6: "\<forall>g\<in>set [str ''234'', str ''567'']. g \<noteq> [] \<and> list_all is_digit g"
    using digits by (simp add: str_def)
  have h7: "\<forall>d ds. is_digit d \<longrightarrow> str '' (+1 -2)'' \<noteq> d # ds \<and> str '' (+1 -2)'' \<noteq> comma # d # ds"
    using space by (auto simp add: str_def comma_def)
  have h8: "length (str ''1'' @ concat [str ''234'', str ''567'']) \<le> int_max_str_digits"
    by (simp add: str_def int_max_str_digits_def)
  have v: "digits_value (str ''1'' @ concat [str ''234'', str ''567'']) = 1234567"
    by (simp add: str_def digits_value_def digit_of_ascii)
  from parse_number_value_first_integer [OF h1 h2 h3 h4 h5 h6 h7 h8] v show ?thesis
    by simp
qed

text \<open>
  C5. A report text in which the header pattern matches nowhere is rejected: the parser
  returns no report and logs one error, a text that is not empty and names the file. The
  loop of \<^verbatim>\<open>main\<close> logs it and goes on with the remaining files, whose reports and log
  entries are what they are without the rejected file.
\<close>

theorem missing_header_is_rejected:
  assumes "re_search header_at content = None"
  shows "parse_diffuse_slim_report name content
           = ([LogError (str ''Could not find version info in '' @ name)], None) \<and>
         str ''Could not find version info in '' @ name \<noteq> [] \<and>
         main_parse_loop ((name, content) # slim_files)
           = (LogInfo (str ''Parsing '' @ name @ str ''...'') #
              LogError (str ''Could not find version info in '' @ name) #
              fst (main_parse_loop slim_files),
              snd (main_parse_loop slim_files))"
proof -
  have p: "parse_diffuse_slim_report name content
      = ([LogError (str ''Could not find version info in '' @ name)], None)"
    using assms by (simp add: parse_diffuse_slim_report_def)
  have "str ''Could not find version info in '' @ name \<noteq> []"
    by (simp add: str_def)
  moreover have "main_parse_loop ((name, content) # slim_files)
           = (LogInfo (str ''Parsing '' @ name @ str ''...'') #
              LogError (str ''Could not find version info in '' @ name) #
              fst (main_parse_loop slim_files),
              snd (main_parse_loop slim_files))"
    by (simp add: p split_def Let_def)
  ultimately show ?thesis using p by simp
qed

theorem missing_header_is_rejected_witness:
  "re_search header_at example_no_header = None \<and>
   main_parse_loop [(str ''b-slim.txt'', example_no_header), (str ''a-slim.txt'', example_two_rows)]
     = ([LogInfo (str ''Parsing b-slim.txt...''),
         LogError (str ''Could not find version info in b-slim.txt''),
         LogInfo (str ''Parsing a-slim.txt...''),
         LogSuccess (str ''  '' @ [10003] @ str '' 1.0.0 '' @ [arrow] @ str '' 1.0.1'')],
        [example_apk_row_report])"
proof -
  have none: "re_search header_at example_no_header = None"
    by (rule example_no_header_search)
  have rest: "main_parse_loop [(str ''a-slim.txt'', example_two_rows)]
      = ([LogInfo (str ''Parsing '' @ str ''a-slim.txt'' @ str ''...''),
          LogSuccess (str ''  '' @ [10003] @ str '' '' @ str ''1.0.0'' @ str '' '' @ [arrow] @
                      str '' '' @ str ''1.0.1'')],
         [example_apk_row_report])"
    by (simp add: example_two_rows_parsed example_apk_row_report_def Let_def)
  from missing_header_is_rejected
    [OF none, of "str ''b-slim.txt''" "[(str ''a-slim.txt'', example_two_rows)]"] none rest
  show ?thesis by (simp add: str_def)
qed

text \<open>
  C6. The claim says that with a section absent the parse gives an empty table and no
  failure, and that only a missing header is fatal. The handler of the parser rejects a
  report on every exception raised while it is read: a report with the header and with
  none of the three sections, whose version-code row has a new code of 4301 digits, is
  rejected, because \<^verbatim>\<open>int\<close> raises on the code.
\<close>

theorem absent_section_counterexample:
  "re_search header_at example_long_code = Some (str ''1.0.0'', str ''1.0.1'') \<and>
   re_search apk_table_at example_long_code = None \<and>
   re_search dex_table_at example_long_code = None \<and>
   re_search arsc_table_at example_long_code = None \<and>
   parse_diffuse_slim_report (str ''c-slim.txt'') example_long_code
     = ([LogError (str ''Failed to parse '' @ str ''c-slim.txt'' @ str '': '' @
                   error_text (ValueErrorDigits 4301))], None)"
  using example_long_code_header example_long_code_apk example_long_code_dex
    example_long_code_arsc
    parse_report_raises [OF example_long_code_header example_long_code_codes, of "str ''c-slim.txt''"]
  by (intro conjI)

text \<open>
  C6, amended. For a report text with the header in which the version-code row and each
  of the three sections is absent or is read without an exception, the parse returns a
  report and logs nothing; in it the table of every absent section is empty.
\<close>

theorem absent_section_gives_empty_table:
  assumes "re_search header_at content = Some (old_v, new_v)"
    and "re_search version_code_at content = None \<or> (\<exists>codes. parse_version_codes content = Inr codes)"
    and "re_search apk_table_at content = None \<or> (\<exists>sizes. parse_apk_sizes content = Inr sizes)"
    and "re_search dex_table_at content = None \<or> (\<exists>table. parse_dex_metrics content = Inr table)"
    and "re_search arsc_table_at content = None \<or> (\<exists>table. parse_arsc_metrics content = Inr table)"
  shows "\<exists>r. parse_diffuse_slim_report name content = ([], Some r) \<and>
             old_version r = old_v \<and> new_version r = new_v \<and>
             (re_search apk_table_at content = None \<longrightarrow>
                apk_compressed (apk_sizes r) = Map.empty \<and>
                apk_uncompressed (apk_sizes r) = Map.empty) \<and>
             (re_search dex_table_at content = None \<longrightarrow> dex_metrics r = Map.empty) \<and>
             (re_search arsc_table_at content = None \<longrightarrow> arsc_metrics r = Map.empty)"
proof -
  from assms(2) have "\<exists>codes. parse_version_codes content = Inr codes"
  proof
    assume "re_search version_code_at content = None"
    from parse_version_codes_absent [OF this] show ?thesis by simp
  qed
  then obtain old_code new_code where codes: "parse_version_codes content = Inr (old_code, new_code)"
    by (elim exE) (case_tac codes, simp)
  from assms(3) have "\<exists>sizes. parse_apk_sizes content = Inr sizes"
  proof
    assume "re_search apk_table_at content = None"
    from parse_apk_sizes_absent [OF this] show ?thesis ..
  qed
  then obtain sizes where sizes: "parse_apk_sizes content = Inr sizes" ..
  from assms(4) have "\<exists>table. parse_dex_metrics content = Inr table"
  proof
    assume "re_search dex_table_at content = None"
    from parse_dex_metrics_absent [OF this] show ?thesis by simp
  qed
  then obtain dex_table where dex_table: "parse_dex_metrics content = Inr dex_table" ..
  from assms(5) have "\<exists>table. parse_arsc_metrics content = Inr table"
  proof
    assume "re_search arsc_table_at content = None"
    from parse_arsc_metrics_absent [OF this] show ?thesis by simp
  qed
  then obtain arsc_table where arsc_table: "parse_arsc_metrics content = Inr arsc_table" ..
  let ?r = "\<lparr>old_version = old_v, new_version = new_v,
             old_version_code = old_code, new_version_code = new_code,
             apk_sizes = sizes, dex_metrics = dex_table, arsc_metrics = arsc_table\<rparr>"
  have apk: "apk_compressed sizes = Map.empty \<and> apk_uncompressed sizes = Map.empty"
    if "re_search apk_table_at content = None"
    using parse_apk_sizes_absent [OF that] sizes by simp
  have dex: "dex_table = Map.empty" if "re_search dex_table_at content = None"
    using parse_dex_metrics_absent [OF that] dex_table by simp
  have arsc: "arsc_table = Map.empty" if "re_search arsc_table_at content = None"
    using parse_arsc_metrics_absent [OF that] arsc_table by simp
  show ?thesis
  proof (intro exI [of _ ?r] conjI impI)
    show "parse_diffuse_slim_report name content = ([], Some ?r)"
      by (rule parse_report_header_present [OF assms(1) codes sizes dex_table arsc_table])
    show "old_version ?r = old_v" by simp
    show "new_version ?r = new_v" by simp
    show "apk_compressed (apk_sizes ?r) = Map.empty" if "re_search apk_table_at content = None"
      using apk [OF that] by simp
    show "apk_uncompressed (apk_sizes ?r) = Map.empty" if "re_search apk_table_at content = None"
      using apk [OF that] by simp
    show "dex_metrics ?r = Map.empty" if "re_search dex_table_at content = None"
      using dex [OF that] by simp
    show "arsc_metrics ?r = Map.empty" if "re_search arsc_table_at content = None"
      using arsc [OF that] by simp
  qed
qed

theorem absent_section_gives_empty_table_witness:
  "re_search header_at example_slim = Some (str ''1.0.0'', str ''1.0.1'') \<and>
   (\<exists>codes. parse_version_codes example_slim = Inr codes) \<and>
   (\<exists>sizes. parse_apk_sizes example_slim = Inr sizes) \<and>
   re_search dex_table_at example_slim = None \<and>
   (\<exists>table. parse_arsc_metrics example_slim = Inr table) \<and>
   (\<exists>r. parse_diffuse_slim_report (str ''d-slim.txt'') example_slim = ([], Some r) \<and>
        old_version r = str ''1.0.0'' \<and> new_version r = str ''1.0.1'' \<and>
        dex_metrics r = Map.empty)"
proof -
  have codes: "\<exists>codes. parse_version_codes example_slim = Inr codes"
    using example_slim_codes by blast
  have apk: "\<exists>sizes. parse_apk_sizes example_slim = Inr sizes"
    using example_slim_apk by blast
  have arsc: "\<exists>table. parse_arsc_metrics example_slim = Inr table"
    using example_slim_arsc by blast
  have h2: "re_search version_code_at example_slim = None \<or>
      (\<exists>codes. parse_version_codes example_slim = Inr codes)"
    using codes ..
  have h3: "re_search apk_table_at example_slim = None \<or>
      (\<exists>sizes. parse_apk_sizes example_slim = Inr sizes)"
    using apk ..
  have h4: "re_search dex_table_at example_slim = None \<or>
      (\<exists>table. parse_dex_metrics example_slim = Inr table)"
    using example_slim_dex ..
  have h5: "re_search arsc_table_at example_slim = None \<or>
      (\<exists>table. parse_arsc_metrics example_slim = Inr table)"
    using arsc ..
  from absent_section_gives_empty_table [OF example_slim_header h2 h3 h4 h5, of "str ''d-slim.txt''"]
  obtain r where r: "parse_diffuse_slim_report (str ''d-slim.txt'') example_slim = ([], Some r)"
    "old_version r = str ''1.0.0''" "new_version r = str ''1.0.1''"
    "re_search dex_table_at example_slim = None \<longrightarrow> dex_metrics r = Map.empty"
    by (elim exE conjE)
  from r(4) example_slim_dex have "dex_metrics r = Map.empty" by simp
  with r(1-3) have "\<exists>r. parse_diffuse_slim_report (str ''d-slim.txt'') example_slim = ([], Some r) \<and>
        old_version r = str ''1.0.0'' \<and> new_version r = str ''1.0.1'' \<and>
        dex_metrics r = Map.empty"
    by (intro exI [of _ r] conjI)
  with example_slim_header example_slim_dex codes apk arsc show ?thesis by (intro conjI)
qed

text \<open>
  C7. The claim says that a report without a version code is sorted last and that the
  build does not fail. In the code the comparison of \<^verbatim>\<open>None\<close> with a version code
  raises \<^verbatim>\<open>TypeError\<close>: two reports, the second without a version code, are not built
  into a timeline.
\<close>

theorem build_raises_on_missing_code:
  "build_cumulative_data
     [example_report ''1.0.0'' (Some 1) ''1.0.1'' (Some 2) 5.9,
      example_report ''1.0.1'' None ''1.0.2'' None 6.1] = Inl TypeError"
  by (simp add: build_cumulative_data_def example_report_def py_lt_def)

text \<open>
  C8. The claim says that \<^verbatim>\<open>parse_size_value\<close> never raises. The token
  \<^verbatim>\<open>. MiB\<close> matches the size pattern with the dot as its number, and \<^verbatim>\<open>float\<close>
  raises \<^verbatim>\<open>ValueError\<close> on it.
\<close>

theorem parse_size_value_raises_on_dot:
  "parse_size_value (str ''. MiB'') = Inl (ValueError (str ''.''))"
  by (simp add: text_defs size_defs)

text \<open>
  C9. For a list of reports that is not empty, the build either raises \<^verbatim>\<open>TypeError\<close>,
  which happens only for two or more reports of which one has no version code, or
  returns a timeline whose first two entries are the old and the new side of the same
  report, the one with the least version code: they have the same four metric tables and
  differ in nothing but \<^verbatim>\<open>version\<close> and \<^verbatim>\<open>versionCode\<close>.
\<close>

theorem seed_snapshot_reuses_tables:
  assumes "parsed_reports \<noteq> []"
  shows "case build_cumulative_data parsed_reports of
           Inl e \<Rightarrow>
             e = TypeError \<and> 2 \<le> length parsed_reports \<and>
             (\<exists>r\<in>set parsed_reports. new_version_code r = None)
         | Inr timeline \<Rightarrow>
             length timeline = length parsed_reports + 1 \<and>
             (\<exists>first_report\<in>set parsed_reports.
                (\<forall>r\<in>set parsed_reports. \<forall>a b.
                   new_version_code first_report = Some a \<longrightarrow> new_version_code r = Some b \<longrightarrow> a \<le> b) \<and>
                timeline ! 0 = old_snapshot first_report \<and>
                timeline ! 1 = new_snapshot first_report) \<and>
             compressed (timeline ! 0) = compressed (timeline ! 1) \<and>
             uncompressed (timeline ! 0) = uncompressed (timeline ! 1) \<and>
             dex (timeline ! 0) = dex (timeline ! 1) \<and>
             arsc (timeline ! 0) = arsc (timeline ! 1) \<and>
             (timeline ! 0)\<lparr>version := version (timeline ! 1),
                             versionCode := versionCode (timeline ! 1)\<rparr> = timeline ! 1"
proof (cases "py_sorted parsed_reports")
  case (Inl e)
  with py_sorted_error [OF Inl] assms show ?thesis
    by (simp add: build_cumulative_data_def)
next
  case (Inr sorted_reports)
  have len: "length sorted_reports = length parsed_reports"
    using py_sorted_length [OF Inr] .
  with assms obtain first_report rest where s: "sorted_reports = first_report # rest"
    by (cases sorted_reports) auto
  from py_sorted_head_minimal [OF Inr [unfolded s]]
  have min: "first_report \<in> set parsed_reports"
    "\<forall>r\<in>set parsed_reports. \<forall>a b.
       new_version_code first_report = Some a \<longrightarrow> new_version_code r = Some b \<longrightarrow> a \<le> b"
    by simp_all
  have b: "build_cumulative_data parsed_reports
      = Inr (old_snapshot first_report # new_snapshot first_report # map new_snapshot rest)"
    using build_returns [OF Inr [unfolded s] assms] .
  have l: "length (old_snapshot first_report # new_snapshot first_report # map new_snapshot rest)
      = length parsed_reports + 1"
    using len s by simp
  have eq: "(old_snapshot first_report)\<lparr>version := version (new_snapshot first_report),
       versionCode := versionCode (new_snapshot first_report)\<rparr> = new_snapshot first_report"
    by (simp add: old_snapshot_def new_snapshot_def)
  have tabs: "compressed (old_snapshot first_report) = compressed (new_snapshot first_report)"
    "uncompressed (old_snapshot first_report) = uncompressed (new_snapshot first_report)"
    "dex (old_snapshot first_report) = dex (new_snapshot first_report)"
    "arsc (old_snapshot first_report) = arsc (new_snapshot first_report)"
    by (simp_all add: old_snapshot_def new_snapshot_def)
  from min have ex: "\<exists>first_report'\<in>set parsed_reports.
       (\<forall>r\<in>set parsed_reports. \<forall>a b.
          new_version_code first_report' = Some a \<longrightarrow> new_version_code r = Some b \<longrightarrow> a \<le> b) \<and>
       old_snapshot first_report = old_snapshot first_report' \<and>
       new_snapshot first_report = new_snapshot first_report'"
    by blast
  show ?thesis
    unfolding b using l ex eq tabs by simp
qed

theorem seed_snapshot_reuses_tables_witness:
  "[example_report ''1.0.1'' (Some 2) ''1.0.2'' (Some 3) 6.1,
    example_report ''1.0.0'' (Some 1) ''1.0.1'' (Some 2) 5.9] \<noteq> [] \<and>
   (case build_cumulative_data
           [example_report ''1.0.1'' (Some 2) ''1.0.2'' (Some 3) 6.1,
            example_report ''1.0.0'' (Some 1) ''1.0.1'' (Some 2) 5.9] of
      Inl e \<Rightarrow> False
    | Inr timeline \<Rightarrow>
        version (timeline ! 0) = str ''1.0.0'' \<and> version (timeline ! 1) = str ''1.0.1'' \<and>
        compressed (timeline ! 0) = compressed (timeline ! 1) \<and>
        compressed (timeline ! 0) (str ''total'') = Some 5.9)"
  using seed_snapshot_reuses_tables
    [of "[example_report ''1.0.1'' (Some 2) ''1.0.2'' (Some 3) 6.1,
          example_report ''1.0.0'' (Some 1) ''1.0.1'' (Some 2) 5.9]"]
  by (simp add: build_cumulative_data_def example_report_def py_lt_def old_snapshot_def
      new_snapshot_def str_def)

text \<open>C10. The empty list of reports is built into the empty timeline, without an error.\<close>

theorem build_empty_timeline: "build_cumulative_data [] = Inr []"
  by (simp add: build_cumulative_data_def)

end
